theory Spec2Isabelle
  imports Complex_Main
begin

section \<open>Exceptions and outcomes\<close>

text \<open>
  The Python exceptions the two source files can raise, as values. The string carries the
  attribute name, the message or the path the exception is about.
\<close>

datatype error =
    AttributeError string
  | TypeError string
  | RuntimeError string
  | ValueError string
  | IndexError string
  | FileNotFoundError string
  | UnboundLocalError string
  | OverflowError string

section \<open>models.py: the base class RLNN\<close>

text \<open>
  A learnable tensor is what \<^verbatim>\<open>self.parameters()\<close> yields: its shape
  (\<^verbatim>\<open>param.size()\<close>) and its elements in row-major order. A network is the list of its
  tensors in declaration order. The element type is left open: \<^verbatim>\<open>set_params\<close> and
  \<^verbatim>\<open>get_params\<close> only copy elements, so what is proved of them holds of any element
  type, IEEE floats with their NaNs included.
\<close>

record 'a tensor =
  tsize :: "nat list"
  data :: "'a list"

type_synonym 'a network = "'a tensor list"

text \<open>
  \<^verbatim>\<open>np.product(param.size())\<close>: the product of the dimensions. For a tensor with one
  dimension or more it is an integer; for a 0-dimensional tensor the shape is the empty
  tuple and numpy returns the float \<^verbatim>\<open>1.0\<close>, which is not a valid slice bound (see
  \<open>set_params_loop\<close>).
\<close>

definition np_product :: "nat list \<Rightarrow> nat" where
  "np_product s = prod_list s"

text \<open>
  \<^verbatim>\<open>
  def set_params(self, params):
      cpt = 0
      for param in self.parameters():
          tmp = np.product(param.size())
          param.data.copy_(torch.from_numpy(
              params[cpt:cpt + tmp]).view(param.size()))
          cpt += tmp
  \<close>
  The slice \<^verbatim>\<open>params[cpt:cpt + tmp]\<close> of a 1-D array is clamped to the array's end, so it
  is \<open>take tmp (drop cpt params)\<close>; \<^verbatim>\<open>view(param.size())\<close> raises RuntimeError when the
  slice does not hold exactly \<open>tmp\<close> elements. \<^verbatim>\<open>copy_\<close> converts every element of the slice
  to the parameter's dtype: the conversion \<open>cast\<close> is an argument (a float64 vector is
  rounded to float32; a vector of the parameter's own dtype is copied as it is). The
  tensors are overwritten in place, one after the other: the result is the exception
  raised (if any) together with the network as the call leaves it, the tensors before
  the failing one already overwritten.
\<close>

fun set_params_loop ::
  "('b \<Rightarrow> 'a) \<Rightarrow> 'b list \<Rightarrow> nat \<Rightarrow> 'a network \<Rightarrow> error option \<times> 'a network" where
  "set_params_loop cast params cpt [] = (None, [])"
| "set_params_loop cast params cpt (param # rest) =
     (if tsize param = [] then
        (Some (TypeError ''slice indices must be integers''), param # rest)
      else
        let tmp = np_product (tsize param);
            slice = take tmp (drop cpt params)
        in if length slice \<noteq> np_product (tsize param) then
             (Some (RuntimeError ''shape is invalid for input size''), param # rest)
           else
             (case set_params_loop cast params (cpt + tmp) rest of
                (e, rest') \<Rightarrow> (e, param\<lparr>data := map cast slice\<rparr> # rest')))"

definition set_params ::
  "('b \<Rightarrow> 'a) \<Rightarrow> 'b list \<Rightarrow> 'a network \<Rightarrow> error option \<times> 'a network" where
  "set_params cast params net = set_params_loop cast params 0 net"

text \<open>
  Modelled from the spec: \<^verbatim>\<open>to_numpy\<close> of util.py, which is not among the sources, "detaches a
  computation-graph-tracked numeric tensor from its graph and returns a plain host-memory
  numeric array copy": the array has the tensor's shape and elements.
\<close>

definition to_numpy :: "'a tensor \<Rightarrow> 'a tensor" where
  "to_numpy v = v"

text \<open>numpy's \<^verbatim>\<open>flatten()\<close>: the elements in row-major order, as a 1-D array.\<close>

definition flatten :: "'a tensor \<Rightarrow> 'a list" where
  "flatten v = data v"

text \<open>
  \<^verbatim>\<open>
  def get_params(self):
      return deepcopy(np.hstack([to_numpy(v).flatten() for v in self.parameters()]))
  \<close>
  \<^verbatim>\<open>np.hstack\<close> of 1-D arrays concatenates them, and raises ValueError on an empty list.
\<close>

definition get_params :: "'a network \<Rightarrow> error + 'a list" where
  "get_params net =
     (if net = [] then Inl (ValueError ''need at least one array to concatenate'')
      else Inr (concat (map (\<lambda>v. flatten (to_numpy v)) net)))"

text \<open>\<^verbatim>\<open>get_size\<close>: \<^verbatim>\<open>self.get_params().shape[0]\<close>.\<close>

definition get_size :: "'a network \<Rightarrow> error + nat" where
  "get_size net = (case get_params net of Inl e \<Rightarrow> Inl e | Inr v \<Rightarrow> Inr (length v))"

text \<open>
  The round trip \<^verbatim>\<open>net.set_params(net.get_params())\<close>. The array that \<^verbatim>\<open>get_params\<close>
  returns has the parameters' own dtype, so \<^verbatim>\<open>copy_\<close> converts nothing.
\<close>

definition set_params_get_params :: "'a network \<Rightarrow> error option \<times> 'a network" where
  "set_params_get_params net =
     (case get_params net of
        Inl e \<Rightarrow> (Some e, net)
      | Inr v \<Rightarrow> set_params (\<lambda>x. x) v net)"

text \<open>
  The total learnable-parameter count of a network, from its shapes, and the tensors
  torch can hold: as many elements as the shape says.
\<close>

definition n_params :: "'a network \<Rightarrow> nat" where
  "n_params net = sum_list (map (\<lambda>p. np_product (tsize p)) net)"

definition numel_ok :: "'a tensor \<Rightarrow> bool" where
  "numel_ok p = (length (data p) = np_product (tsize p))"

text \<open>The contiguous slices of a vector, sized by a list of element counts.\<close>

fun slices :: "'a list \<Rightarrow> nat list \<Rightarrow> 'a list list" where
  "slices v [] = []"
| "slices v (n # ns) = take n v # slices (drop n v) ns"

text \<open>
  How many leading tensors a vector of a given length covers in full, and the network
  that loading the vector must leave: the covered tensors hold their slices, converted,
  and the others are as they were.
\<close>

fun covered :: "nat \<Rightarrow> nat list \<Rightarrow> nat" where
  "covered len [] = 0"
| "covered len (n # ns) = (if n \<le> len then Suc (covered (len - n) ns) else 0)"

definition overwritten :: "('b \<Rightarrow> 'a) \<Rightarrow> 'b list \<Rightarrow> 'a network \<Rightarrow> 'a network" where
  "overwritten cast v net =
     (let ns = map (\<lambda>p. np_product (tsize p)) net;
          k = covered (length v) ns
      in map2 (\<lambda>p s. p\<lparr>data := map cast s\<rparr>) (take k net) (slices v (take k ns)) @ drop k net)"

section \<open>ges.py: the driver and its collaborators\<close>

text \<open>
  The floating-point numbers of Python, numpy and torch: the finite ones (read as the
  reals they denote, the two zeros as one), the two infinities, and NaN.
\<close>

datatype pyfloat = Float real | PosInf | NegInf | NaN

text \<open>The comparison \<^verbatim>\<open><=\<close> of floats: False whenever an operand is NaN.\<close>

fun fle :: "pyfloat \<Rightarrow> pyfloat \<Rightarrow> bool" where
  "fle NaN y = False"
| "fle x NaN = False"
| "fle NegInf y = True"
| "fle x PosInf = True"
| "fle PosInf y = False"
| "fle x NegInf = False"
| "fle (Float a) (Float b) = (a \<le> b)"

text \<open>
  \<^verbatim>\<open>np.maximum\<close> and \<^verbatim>\<open>np.minimum\<close> on two floats: NaN when an operand is NaN, the larger
  (the smaller) operand otherwise.
\<close>

definition np_maximum :: "pyfloat \<Rightarrow> pyfloat \<Rightarrow> pyfloat" where
  "np_maximum x y = (if x = NaN \<or> y = NaN then NaN else if fle x y then y else x)"

definition np_minimum :: "pyfloat \<Rightarrow> pyfloat \<Rightarrow> pyfloat" where
  "np_minimum x y = (if x = NaN \<or> y = NaN then NaN else if fle x y then x else y)"

text \<open>
  The product of a Python int and a float, as \<^verbatim>\<open>self.max_action * x\<close> computes it entry by
  entry: NaN for NaN and for zero times an infinity, zero for zero times a finite number
  and for a zero entry, an infinity of the product's sign for an infinite entry, and the
  exact product rounded (\<open>rnd\<close>, torch's rounding to the tensor's dtype) otherwise.
\<close>

fun scale :: "(real \<Rightarrow> pyfloat) \<Rightarrow> int \<Rightarrow> pyfloat \<Rightarrow> pyfloat" where
  "scale rnd m NaN = NaN"
| "scale rnd m PosInf = (if m = 0 then NaN else if 0 < m then PosInf else NegInf)"
| "scale rnd m NegInf = (if m = 0 then NaN else if 0 < m then NegInf else PosInf)"
| "scale rnd m (Float x) = (if m = 0 \<or> x = 0 then Float 0 else rnd (real_of_int m * x))"

text \<open>
  The calls the driver makes on what lies outside the two source files (the gym
  environment, numpy's random state, the replay memory, the evolution strategy, the agent,
  the file system, the console), in the order it makes them.
\<close>

datatype event =
    GetOutputFolder string string
  | GymMake string
  | NpRandomSeed int
  | EnvSeed int
  | MemoryInit int
  | NoiseInit
  | AgentInit bool
  | EsInit
  | EnvReset
  | EnvStep "pyfloat list" bool
  | EnvRender
  | ActionSpaceSample
  | NoiseSample
  | MemoryAdd "pyfloat list" "pyfloat list" "pyfloat list" pyfloat bool
  | TorchLoad string
  | EsAsk
  | EsTell "pyfloat list" "pyfloat list list"
  | EsAdd "pyfloat list" pyfloat
  | ActorGradient nat
  | TrainCritic int
  | AgentSave string
  | ToPickle string "(int \<times> int) list"
  | PrLightPurple string pyfloat
  | PrPurple string nat int

text \<open>
  What is not under the two source files is a parameter of the model: the environment
  that \<^verbatim>\<open>gym.make\<close> returns, torch's initialisation, forward and backward passes, and the
  modules ES.py, ddpg.py, td3.py, memory.py, random_process.py and util.py. Their state
  is the world \<open>'w\<close>. A call whose result the driver uses is a field of its own; every
  other call changes the world by \<open>effect\<close>. The calls are taken to return: an
  exception of theirs would pass through the driver unchanged. The arithmetic of numpy
  and torch is a parameter too: the sum of two floats (\<open>np_add\<close>), the mean of a list that
  is not empty (\<open>np_mean\<close>), the conversion of a float64 to the parameters' float32
  (\<open>to_float32\<close>) and the rounding of an exact product (\<open>torch_round\<close>); nothing is assumed
  of them.
\<close>

record 'w extern =
  observation_space_shape :: "nat list"
  action_space_shape :: "nat list"
  action_space_high :: "pyfloat list"
  env_reset :: "'w \<Rightarrow> pyfloat list \<times> 'w"
  env_step :: "pyfloat list \<Rightarrow> 'w \<Rightarrow> (pyfloat list \<times> pyfloat \<times> bool) \<times> 'w"
  action_space_sample :: "'w \<Rightarrow> pyfloat list \<times> 'w"
  es_ask :: "'w \<Rightarrow> pyfloat list list \<times> 'w"
  es_mu :: "'w \<Rightarrow> pyfloat list"
  torch_init :: "nat list \<Rightarrow> 'w \<Rightarrow> pyfloat list \<times> 'w"
  torch_load :: "string \<Rightarrow> 'w \<Rightarrow> pyfloat network option"
  tanh_layers :: "pyfloat network \<Rightarrow> pyfloat list \<Rightarrow> pyfloat list"
  actor_gradient :: "pyfloat network \<Rightarrow> nat \<Rightarrow> 'w \<Rightarrow> pyfloat list \<times> 'w"
  np_add :: "pyfloat \<Rightarrow> pyfloat \<Rightarrow> pyfloat"
  np_mean :: "pyfloat list \<Rightarrow> pyfloat"
  to_float32 :: "pyfloat \<Rightarrow> pyfloat"
  torch_round :: "real \<Rightarrow> pyfloat"
  get_output_folder :: "string \<Rightarrow> string \<Rightarrow> 'w \<Rightarrow> string \<times> 'w"
  effect :: "event \<Rightarrow> 'w \<Rightarrow> 'w"

text \<open>
  A run of driver code from a world: how it ended, the calls it made, and the world it
  left. A \<^verbatim>\<open>while\<close> loop is given a bound on its iterations (the fuel); \<open>OutOfFuel\<close>
  says the loop had not ended within the bound.
\<close>

datatype 'a outcome = Returned 'a | Raised error | OutOfFuel

type_synonym ('a, 'w) prog = "'w \<Rightarrow> 'a outcome \<times> event list \<times> 'w"

definition outcome_of :: "'a outcome \<times> event list \<times> 'w \<Rightarrow> 'a outcome" where
  "outcome_of r = fst r"

definition trace :: "'a outcome \<times> event list \<times> 'w \<Rightarrow> event list" where
  "trace r = fst (snd r)"

definition world_of :: "'a outcome \<times> event list \<times> 'w \<Rightarrow> 'w" where
  "world_of r = snd (snd r)"

definition returnM :: "'a \<Rightarrow> ('a, 'w) prog" where
  "returnM x = (\<lambda>w. (Returned x, [], w))"

definition raiseM :: "error \<Rightarrow> ('a, 'w) prog" where
  "raiseM e = (\<lambda>w. (Raised e, [], w))"

text \<open>Sequencing: an exception (or a loop out of fuel) skips what follows.\<close>

definition bindM :: "('a, 'w) prog \<Rightarrow> ('a \<Rightarrow> ('b, 'w) prog) \<Rightarrow> ('b, 'w) prog" where
  "bindM m f = (\<lambda>w.
     case m w of
       (Returned x, evs, w1) \<Rightarrow> (case f x w1 of (r, evs2, w2) \<Rightarrow> (r, evs @ evs2, w2))
     | (Raised e, evs, w1) \<Rightarrow> (Raised e, evs, w1)
     | (OutOfFuel, evs, w1) \<Rightarrow> (OutOfFuel, evs, w1))"

text \<open>An external call with no result of interest, and one with a result.\<close>

definition call :: "'w extern \<Rightarrow> event \<Rightarrow> (unit, 'w) prog" where
  "call X ev = (\<lambda>w. (Returned (), [ev], effect X ev w))"

definition call_result :: "('a \<Rightarrow> event) \<Rightarrow> ('w \<Rightarrow> 'a \<times> 'w) \<Rightarrow> ('a, 'w) prog" where
  "call_result ev f = (\<lambda>w. case f w of (x, w1) \<Rightarrow> (Returned x, [ev x], w1))"

definition whenM :: "bool \<Rightarrow> (unit, 'w) prog \<Rightarrow> (unit, 'w) prog" where
  "whenM b m = (if b then m else returnM ())"

subsection \<open>The command line and the module-level names\<close>

text \<open>
  The flags of the argument parser that the driver's own code reads; the other
  hyperparameters only reach the constructors of the absent modules.
\<close>

record args =
  mode :: string
  env :: string
  start_steps :: int
  use_td3 :: bool
  n_gen :: int
  n_episodes :: int
  omega :: int
  mem_size :: int
  filename :: string
  n_test :: int
  output_dir :: string
  debug :: bool
  seed :: int
  render :: bool

text \<open>The names \<^verbatim>\<open>__main__\<close> binds at module level and the functions read as globals.\<close>

record globals =
  args :: args
  state_dim :: nat
  action_dim :: nat
  max_action :: int

text \<open>
  Python's \<^verbatim>\<open>int(x)\<close> of a float: truncation towards zero of a finite one, OverflowError
  for an infinity, ValueError for NaN.
\<close>

definition py_int :: "pyfloat \<Rightarrow> error + int" where
  "py_int x =
     (case x of
        Float r \<Rightarrow> Inr (if 0 \<le> r then \<lfloor>r\<rfloor> else \<lceil>r\<rceil>)
      | PosInf \<Rightarrow> Inl (OverflowError ''cannot convert float infinity to integer'')
      | NegInf \<Rightarrow> Inl (OverflowError ''cannot convert float infinity to integer'')
      | NaN \<Rightarrow> Inl (ValueError ''cannot convert float NaN to integer''))"

definition raise_or_return :: "error + 'a \<Rightarrow> ('a, 'w) prog" where
  "raise_or_return r = (case r of Inl e \<Rightarrow> raiseM e | Inr x \<Rightarrow> returnM x)"

subsection \<open>models.py: ActorERL\<close>

text \<open>
  \<^verbatim>\<open>
  self.l1 = nn.Linear(state_dim, 128); self.n1 = nn.LayerNorm(128)
  self.l2 = nn.Linear(128, 128);       self.n2 = nn.LayerNorm(128)
  self.l3 = nn.Linear(128, action_dim)
  \<close>
  The learnable tensors in declaration order, each layer's weight before its bias; the
  weight of \<^verbatim>\<open>nn.Linear(i, o)\<close> has shape \<open>[o, i]\<close>.
\<close>

record actorERL =
  parameters :: "pyfloat network"
  self_max_action :: int

definition ActorERL_shapes :: "nat \<Rightarrow> nat \<Rightarrow> nat list list" where
  "ActorERL_shapes sd ad =
     [[128, sd], [128], [128], [128],
      [128, 128], [128], [128], [128],
      [ad, 128], [ad]]"

fun torch_tensors :: "'w extern \<Rightarrow> nat list list \<Rightarrow> 'w \<Rightarrow> pyfloat network \<times> 'w" where
  "torch_tensors X [] w = ([], w)"
| "torch_tensors X (s # ss) w =
     (case torch_init X s w of (d, w1) \<Rightarrow>
        (case torch_tensors X ss w1 of (ts, w2) \<Rightarrow>
           (\<lparr>tsize = s, data = d\<rparr> # ts, w2)))"

definition ActorERL_init :: "'w extern \<Rightarrow> nat \<Rightarrow> nat \<Rightarrow> int \<Rightarrow> (actorERL, 'w) prog" where
  "ActorERL_init X sd ad ma = (\<lambda>w.
     case torch_tensors X (ActorERL_shapes sd ad) w of
       (net, w1) \<Rightarrow> (Returned \<lparr>parameters = net, self_max_action = ma\<rparr>, [], w1))"

text \<open>
  \<^verbatim>\<open>
  def forward(self, x):
      x = F.tanh(self.n1(self.l1(x)))
      x = F.tanh(self.n2(self.l2(x)))
      x = F.tanh(self.l3(x))
      return self.max_action * x
  \<close>
  The three \<^verbatim>\<open>tanh\<close> layers are torch's (\<open>tanh_layers\<close>); the scaling is the source's.
\<close>

definition ActorERL_forward :: "'w extern \<Rightarrow> actorERL \<Rightarrow> pyfloat list \<Rightarrow> pyfloat list" where
  "ActorERL_forward X actor x =
     map (scale (torch_round X) (self_max_action actor)) (tanh_layers X (parameters actor) x)"

text \<open>
  The names an ActorERL object answers to: its own, those of RLNN, and those of
  \<^verbatim>\<open>nn.Module\<close> that the sources use (torch defines more; none is \<^verbatim>\<open>actor_grad\<close>). Any
  other name raises AttributeError.
\<close>

definition RLNN_methods :: "string list" where
  "RLNN_methods = [''set_params'', ''train_actor'', ''get_params'', ''get_grads'',
     ''get_size'', ''load_model'', ''save_model'']"

definition ActorERL_attributes :: "string list" where
  "ActorERL_attributes =
     [''l1'', ''n1'', ''l2'', ''n2'', ''l3'', ''max_action'', ''state_dim'', ''action_dim'',
      ''forward''] @ RLNN_methods @
     [''parameters'', ''cuda'', ''load_state_dict'', ''state_dict'']"

definition ActorERL_getattr :: "string \<Rightarrow> (string, 'w) prog" where
  "ActorERL_getattr name =
     (if name \<in> set ActorERL_attributes then returnM name else raiseM (AttributeError name))"

text \<open>
  \<^verbatim>\<open>
  def train_actor(self, critic, memory, batch_size):
      x, _, _, _, _ = memory.sample(batch_size)
      state = FloatTensor(x)
      actor_loss = -critic(state, self.forward(state)).mean()
      actor_loss.backward()
      return self.get_grads()
  \<close>
  The sample, the critic and the backward pass are external: \<open>actor_gradient\<close>.
\<close>

definition train_actor :: "'w extern \<Rightarrow> actorERL \<Rightarrow> nat \<Rightarrow> (pyfloat list, 'w) prog" where
  "train_actor X actor batch_size =
     call_result (\<lambda>_. ActorGradient batch_size) (actor_gradient X (parameters actor) batch_size)"

text \<open>
  Calling what an attribute lookup returned with the arguments
  \<^verbatim>\<open>(agent.critic, memory, batch_size=1024)\<close>: of the names above only \<^verbatim>\<open>train_actor\<close>
  takes them.
\<close>

definition call_attribute :: "'w extern \<Rightarrow> string \<Rightarrow> actorERL \<Rightarrow> nat \<Rightarrow> (pyfloat list, 'w) prog" where
  "call_attribute X name actor batch_size =
     (if name = ''train_actor'' then train_actor X actor batch_size
      else raiseM (TypeError name))"

text \<open>
  \<^verbatim>\<open>actor.set_params(v)\<close> inside the driver: the exception, or the actor overwritten. The
  vectors of the evolution strategy are float64 arrays, the parameters float32 tensors.
\<close>

definition actor_set_params :: "'w extern \<Rightarrow> pyfloat list \<Rightarrow> actorERL \<Rightarrow> (actorERL, 'w) prog" where
  "actor_set_params X v actor =
     (case set_params (to_float32 X) v (parameters actor) of
        (Some e, net) \<Rightarrow> raiseM e
      | (None, net) \<Rightarrow> returnM (actor\<lparr>parameters := net\<rparr>))"

text \<open>
  \<^verbatim>\<open>
  def load_model(self, filename, net_name):
      if filename is None:
          return
      self.load_state_dict(torch.load('{}/{}.pkl'.format(filename, net_name)))
  \<close>
  \<^verbatim>\<open>torch.load\<close> raises on a missing file, \<^verbatim>\<open>load_state_dict\<close> on tensors of other shapes.
\<close>

definition load_model :: "'w extern \<Rightarrow> string option \<Rightarrow> string \<Rightarrow> actorERL \<Rightarrow> (actorERL, 'w) prog" where
  "load_model X fname net_name actor =
     (case fname of
        None \<Rightarrow> returnM actor
      | Some f \<Rightarrow> (\<lambda>w.
          let path = f @ ''/'' @ net_name @ ''.pkl'' in
          case torch_load X path w of
            None \<Rightarrow> (Raised (FileNotFoundError path), [TorchLoad path], w)
          | Some sd \<Rightarrow>
              if map tsize sd = map tsize (parameters actor)
              then (Returned (actor\<lparr>parameters := sd\<rparr>), [TorchLoad path], w)
              else (Raised (RuntimeError ''size mismatch''), [TorchLoad path], w)))"

subsection \<open>ges.py: evaluate\<close>

text \<open>
  The \<^verbatim>\<open>noise\<close> argument of \<^verbatim>\<open>evaluate\<close>: \<^verbatim>\<open>None\<close> (the default), a boolean (\<^verbatim>\<open>test\<close> passes
  \<^verbatim>\<open>False\<close>), or an object with a \<^verbatim>\<open>sample()\<close> method.
\<close>

datatype 'w noise = PyNone | PyBool bool | NoiseProcess "'w \<Rightarrow> pyfloat list \<times> 'w"

text \<open>
  \<^verbatim>\<open>action += noise.sample()\<close> on numpy arrays: elementwise, a one-element sample is
  broadcast, any other length raises ValueError. The sums are numpy's.
\<close>

definition np_iadd :: "'w extern \<Rightarrow> pyfloat list \<Rightarrow> pyfloat list \<Rightarrow> error + pyfloat list" where
  "np_iadd X action n =
     (if length n = length action then Inr (map2 (np_add X) action n)
      else (case n of
              [s] \<Rightarrow> Inr (map (\<lambda>x. np_add X x s) action)
            | _ \<Rightarrow> Inl (ValueError ''operands could not be broadcast together'')))"

text \<open>
  \<^verbatim>\<open>np.clip(a, lo, hi)\<close> is \<^verbatim>\<open>minimum(maximum(a, lo), hi)\<close>, elementwise: a NaN entry stays
  NaN.
\<close>

definition np_clip :: "pyfloat list \<Rightarrow> pyfloat \<Rightarrow> pyfloat \<Rightarrow> pyfloat list" where
  "np_clip a lo hi = map (\<lambda>x. np_minimum (np_maximum x lo) hi) a"

text \<open>
  \<^verbatim>\<open>
  if not random:
      def policy(state):
          state = FloatTensor(state.reshape(-1, state_dim))
          action = actor(state).cpu().data.numpy().flatten()
          if noise is not None:
              action += noise.sample()
          return np.clip(action, -max_action, max_action)
  else:
      def policy(state):
          return env.action_space.sample()
  \<close>
  An observation has \<^verbatim>\<open>state_dim\<close> entries, so the reshape yields one row and the flattened
  output is the action vector. \<^verbatim>\<open>False\<close> is not \<^verbatim>\<open>None\<close>, and a boolean has no attribute
  \<^verbatim>\<open>sample\<close>.
\<close>

definition policy ::
  "'w extern \<Rightarrow> globals \<Rightarrow> actorERL \<Rightarrow> bool \<Rightarrow> 'w noise \<Rightarrow> pyfloat list \<Rightarrow>
   (pyfloat list, 'w) prog" where
  "policy X g actor random noise st =
     (if \<not> random then
        (let action = ActorERL_forward X actor st in
         bindM (case noise of
                  PyNone \<Rightarrow> returnM action
                | PyBool b \<Rightarrow> raiseM (AttributeError ''sample'')
                | NoiseProcess sample \<Rightarrow>
                    bindM (call_result (\<lambda>_. NoiseSample) sample) (\<lambda>n.
                      raise_or_return (np_iadd X action n)))
           (\<lambda>noisy.
              returnM (np_clip noisy (Float (- real_of_int (max_action g)))
                         (Float (real_of_int (max_action g))))))
      else call_result (\<lambda>_. ActionSpaceSample) (action_space_sample X))"

text \<open>
  \<^verbatim>\<open>
  while not done:
      action = policy(obs)
      n_obs, reward, done, info = env.step(action)
      score += reward
      steps += 1
      if add_memory:
          memory.add((obs, n_obs, action, reward, done))
      obs = n_obs
      if render:
          env.render()
      if done:
          env.reset()
  \<close>
  \<open>done\<close> is False on entry, so the body runs at least once; the first argument bounds the
  iterations. The sum \<^verbatim>\<open>score + reward\<close> is numpy's.
\<close>

fun evaluate_while ::
  "nat \<Rightarrow> 'w extern \<Rightarrow> (pyfloat list \<Rightarrow> (pyfloat list, 'w) prog) \<Rightarrow> bool \<Rightarrow> bool \<Rightarrow>
   pyfloat list \<Rightarrow> pyfloat \<Rightarrow> int \<Rightarrow> (pyfloat \<times> int, 'w) prog" where
  "evaluate_while 0 X pol rend add_memory obs score steps = (\<lambda>w. (OutOfFuel, [], w))"
| "evaluate_while (Suc fuel) X pol rend add_memory obs score steps =
     bindM (pol obs) (\<lambda>action.
     bindM (call_result (\<lambda>(n_obs, reward, done). EnvStep action done) (env_step X action))
       (\<lambda>(n_obs, reward, done).
     bindM (whenM add_memory (call X (MemoryAdd obs n_obs action reward done))) (\<lambda>_.
     bindM (whenM rend (call X EnvRender)) (\<lambda>_.
     bindM (whenM done (bindM (call_result (\<lambda>_. EnvReset) (env_reset X)) (\<lambda>_. returnM ()))) (\<lambda>_.
     if done then returnM (np_add X score reward, steps + 1)
     else evaluate_while fuel X pol rend add_memory n_obs (np_add X score reward) (steps + 1))))))"

text \<open>
  \<^verbatim>\<open>
  for _ in range(n_episodes):
      score = 0
      obs = deepcopy(env.reset())
      done = False
      while not done: ...
      scores.append(score)
  return np.mean(scores), steps
  \<close>
  \<^verbatim>\<open>np.mean\<close> of an empty list is NaN (numpy warns and returns \<^verbatim>\<open>nan\<close>).
\<close>

definition mean_scores :: "'w extern \<Rightarrow> pyfloat list \<Rightarrow> pyfloat" where
  "mean_scores X scores = (case scores of [] \<Rightarrow> NaN | _ \<Rightarrow> np_mean X scores)"

fun evaluate_for ::
  "nat \<Rightarrow> nat \<Rightarrow> 'w extern \<Rightarrow> (pyfloat list \<Rightarrow> (pyfloat list, 'w) prog) \<Rightarrow> bool \<Rightarrow> bool \<Rightarrow>
   pyfloat list \<Rightarrow> int \<Rightarrow> (pyfloat list \<times> int, 'w) prog" where
  "evaluate_for 0 fuel X pol rend add_memory scores steps = returnM (scores, steps)"
| "evaluate_for (Suc n) fuel X pol rend add_memory scores steps =
     bindM (call_result (\<lambda>_. EnvReset) (env_reset X)) (\<lambda>obs.
     bindM (evaluate_while fuel X pol rend add_memory obs (Float 0) steps) (\<lambda>(score, steps1).
     evaluate_for n fuel X pol rend add_memory (scores @ [score]) steps1))"

definition evaluate ::
  "nat \<Rightarrow> 'w extern \<Rightarrow> globals \<Rightarrow> actorERL \<Rightarrow> int \<Rightarrow> bool \<Rightarrow> 'w noise \<Rightarrow> bool \<Rightarrow> bool \<Rightarrow>
   (pyfloat \<times> int, 'w) prog" where
  "evaluate fuel X g actor n_eps random noise rend add_memory =
     bindM (evaluate_for (nat n_eps) fuel X (policy X g actor random noise) rend add_memory [] 0)
       (\<lambda>(scores, steps). returnM (mean_scores X scores, steps))"

subsection \<open>ges.py: train_es, train_rl, train, test\<close>

text \<open>
  \<^verbatim>\<open>
  for actor_params in actors_params:
      actor.set_params(actor_params)
      f, steps = evaluate(actor, n_episodes=n_episodes, render=render, random=random)
      batch_steps += steps
      fitness.append(f)
      if debug:
          prLightPurple('EA actor fitness:{}'.format(f))
  \<close>
\<close>

fun train_es_for ::
  "nat \<Rightarrow> 'w extern \<Rightarrow> globals \<Rightarrow> int \<Rightarrow> bool \<Rightarrow> bool \<Rightarrow> bool \<Rightarrow> pyfloat list list \<Rightarrow>
   actorERL \<Rightarrow> int \<Rightarrow> pyfloat list \<Rightarrow> (actorERL \<times> int \<times> pyfloat list, 'w) prog" where
  "train_es_for fuel X g n_eps dbg rend random [] actor batch_steps fitness =
     returnM (actor, batch_steps, fitness)"
| "train_es_for fuel X g n_eps dbg rend random (actor_params # rest) actor batch_steps fitness =
     bindM (actor_set_params X actor_params actor) (\<lambda>actor1.
     bindM (evaluate fuel X g actor1 n_eps random PyNone rend True) (\<lambda>(f, steps).
     bindM (whenM dbg (call X (PrLightPurple ''EA actor fitness:{}'' f))) (\<lambda>_.
     train_es_for fuel X g n_eps dbg rend random rest actor1 (batch_steps + steps)
       (fitness @ [f]))))"

text \<open>
  \<^verbatim>\<open>
  batch_steps = 0
  actor = Actor(state_dim, action_dim, max_action)
  actors_params = es.ask()
  fitness = []
  for actor_params in actors_params: ...
  es.tell(fitness, actors_params)
  actor.set_params(es.mu)
  grad = actor.actor_grad(agent.critic, memory, batch_size=1024)
  es.add(None, grad, f)
  return batch_steps
  \<close>
  \<^verbatim>\<open>Actor\<close> is ActorERL (\<^verbatim>\<open>from models import ActorERL as Actor\<close>). \<^verbatim>\<open>f\<close> is the fitness of the
  last member evaluated; with an empty population the name is unbound.
\<close>

definition train_es ::
  "nat \<Rightarrow> 'w extern \<Rightarrow> globals \<Rightarrow> int \<Rightarrow> bool \<Rightarrow> bool \<Rightarrow> bool \<Rightarrow> (int, 'w) prog" where
  "train_es fuel X g n_eps dbg rend random =
     bindM (ActorERL_init X (state_dim g) (action_dim g) (max_action g)) (\<lambda>actor.
     bindM (call_result (\<lambda>_. EsAsk) (es_ask X)) (\<lambda>actors_params.
     bindM (train_es_for fuel X g n_eps dbg rend random actors_params actor 0 [])
       (\<lambda>(actor1, batch_steps, fitness).
     bindM (call X (EsTell fitness actors_params)) (\<lambda>_.
     bindM (\<lambda>w. actor_set_params X (es_mu X w) actor1 w) (\<lambda>actor2.
     bindM (ActorERL_getattr ''actor_grad'') (\<lambda>meth.
     bindM (call_attribute X meth actor2 1024) (\<lambda>grad.
     bindM (case fitness of
              [] \<Rightarrow> raiseM (UnboundLocalError ''f'')
            | _ \<Rightarrow> call X (EsAdd grad (last fitness))) (\<lambda>_.
     returnM batch_steps))))))))"

text \<open>
  \<^verbatim>\<open>
  def train_rl(n_episodes=1, n_steps=1000, debug=False, render=False, random=False):
      agent.train_critic(n_steps)
      return 0, 0
  \<close>
\<close>

definition train_rl :: "'w extern \<Rightarrow> int \<Rightarrow> int \<Rightarrow> bool \<Rightarrow> bool \<Rightarrow> bool \<Rightarrow> (int \<times> int, 'w) prog" where
  "train_rl X n_eps n_steps dbg rend random =
     bindM (call X (TrainCritic n_steps)) (\<lambda>_. returnM (0, 0))"

text \<open>
  \<^verbatim>\<open>
  for n in range(n_gen):
      random = total_steps < args.start_steps
      steps_ea = train_es(n_episodes=n_episodes, debug=debug, render=render, random=random)
      steps_rl, f = train_rl(n_episodes=n_episodes, n_steps=steps_ea, ...)
      total_steps += steps_rl + steps_ea
      # saving model and scores
      agent.save(output)
      df.to_pickle(output + "/log.pkl")
      # saving scores
      best_score = f
      df = df.append({"total_steps": total_steps, "best_score": best_score}, ignore_index=True)
      if debug:
          prPurple('Generation#{}: Total steps:{}\n'.format(n, total_steps))
  \<close>
  The two phases are arguments of the loop, so that the order of its own steps can be
  examined for any phase; \<open>train\<close> instantiates them with \<open>train_es\<close> and \<open>train_rl\<close>.
\<close>

fun train_for ::
  "(bool \<Rightarrow> (int, 'w) prog) \<Rightarrow> (int \<Rightarrow> bool \<Rightarrow> (int \<times> int, 'w) prog) \<Rightarrow> 'w extern \<Rightarrow> globals \<Rightarrow>
   string \<Rightarrow> bool \<Rightarrow> nat list \<Rightarrow> int \<Rightarrow> (int \<times> int) list \<Rightarrow> (unit, 'w) prog" where
  "train_for es rl X g out dbg [] total_steps df = returnM ()"
| "train_for es rl X g out dbg (n # ns) total_steps df =
     bindM (es (total_steps < start_steps (args g))) (\<lambda>steps_ea.
     bindM (rl steps_ea (total_steps < start_steps (args g))) (\<lambda>(steps_rl, f).
     bindM (call X (AgentSave out)) (\<lambda>_.
     bindM (call X (ToPickle (out @ ''/log.pkl'') df)) (\<lambda>_.
     bindM (whenM dbg (call X (PrPurple ''Generation#{}: Total steps:{}'' n
              (total_steps + (steps_rl + steps_ea))))) (\<lambda>_.
     train_for es rl X g out dbg ns (total_steps + (steps_rl + steps_ea))
       (df @ [(total_steps + (steps_rl + steps_ea), f)]))))))"

definition train ::
  "nat \<Rightarrow> 'w extern \<Rightarrow> globals \<Rightarrow> int \<Rightarrow> int \<Rightarrow> int \<Rightarrow> string \<Rightarrow> bool \<Rightarrow> bool \<Rightarrow> (unit, 'w) prog" where
  "train fuel X g n_gn n_eps omg out dbg rend =
     train_for (train_es fuel X g n_eps dbg rend)
       (\<lambda>steps_ea random. train_rl X n_eps steps_ea dbg rend random)
       X g out dbg [0 ..< nat n_gn] 0 []"

text \<open>What \<^verbatim>\<open>log.pkl\<close> at a path holds after a run: the rows of the last \<^verbatim>\<open>to_pickle\<close> there.\<close>

fun pickled :: "string \<Rightarrow> event list \<Rightarrow> (int \<times> int) list option" where
  "pickled path [] = None"
| "pickled path (ToPickle p rows # evs) =
     (case pickled path evs of
        Some later \<Rightarrow> Some later
      | None \<Rightarrow> if p = path then Some rows else None)"
| "pickled path (ev # evs) = pickled path evs"

text \<open>
  \<^verbatim>\<open>
  def test(n_test, filename, debug=False, render=False):
      actor = Actor(state_dim, action_dim, max_action)
      actor.load_model(filename, "actor")
      f, _ = evaluate(actor, n_episodes=n_test, noise=False, render=render)
      if debug:
          prLightPurple('Average fitness:{}'.format(f))
  \<close>
\<close>

definition test ::
  "nat \<Rightarrow> 'w extern \<Rightarrow> globals \<Rightarrow> int \<Rightarrow> string \<Rightarrow> bool \<Rightarrow> bool \<Rightarrow> (unit, 'w) prog" where
  "test fuel X g n_tst fname dbg rend =
     bindM (ActorERL_init X (state_dim g) (action_dim g) (max_action g)) (\<lambda>actor.
     bindM (load_model X (Some fname) ''actor'' actor) (\<lambda>actor1.
     bindM (evaluate fuel X g actor1 n_tst False (PyBool False) rend True) (\<lambda>(f, _).
     whenM dbg (call X (PrLightPurple ''Average fitness:{}'' f)))))"

subsection \<open>ges.py: the main block\<close>

text \<open>\<^verbatim>\<open>shape[0]\<close> and \<^verbatim>\<open>high[0]\<close>: the first entry, IndexError when there is none.\<close>

definition index0 :: "'a list \<Rightarrow> ('a, 'w) prog" where
  "index0 xs = (case xs of [] \<Rightarrow> raiseM (IndexError ''index 0 is out of bounds'') | x # _ \<Rightarrow> returnM x)"

text \<open>
  \<^verbatim>\<open>
  args = parser.parse_args()
  args.output = get_output_folder(args.output, args.env)
  env = gym.make(args.env)
  state_dim = env.observation_space.shape[0]
  action_dim = env.action_space.shape[0]
  max_action = int(env.action_space.high[0])
  if args.seed > 0:
      np.random.seed(args.seed)
      env.seed(args.seed)
  memory = Memory(args.mem_size)
  a_noise = OrnsteinUhlenbeckProcess(...)
  if args.use_td3: agent = TD3(...)
  else: agent = DDPG(...)
  es = GES(...)
  \<close>
\<close>

definition startup :: "'w extern \<Rightarrow> args \<Rightarrow> (globals, 'w) prog" where
  "startup X a =
     bindM (call_result (\<lambda>_. GetOutputFolder (output_dir a) (env a))
              (get_output_folder X (output_dir a) (env a))) (\<lambda>out.
     bindM (call X (GymMake (env a))) (\<lambda>_.
     bindM (index0 (observation_space_shape X)) (\<lambda>sd.
     bindM (index0 (action_space_shape X)) (\<lambda>ad.
     bindM (index0 (action_space_high X)) (\<lambda>high.
     bindM (raise_or_return (py_int high)) (\<lambda>ma.
     bindM (whenM (seed a > 0)
              (bindM (call X (NpRandomSeed (seed a))) (\<lambda>_. call X (EnvSeed (seed a))))) (\<lambda>_.
     bindM (call X (MemoryInit (mem_size a))) (\<lambda>_.
     bindM (call X NoiseInit) (\<lambda>_.
     bindM (call X (AgentInit (use_td3 a))) (\<lambda>_.
     bindM (call X EsInit) (\<lambda>_.
     returnM \<lparr>args = a\<lparr>output_dir := out\<rparr>, state_dim = sd, action_dim = ad,
              max_action = ma\<rparr>)))))))))))"

text \<open>
  \<^verbatim>\<open>
  if args.mode == 'train':
      train(n_gen=args.n_gen, n_episodes=args.n_episodes, omega=args.omega,
            output=args.output, debug=args.debug, render=args.render)
  elif args.mode == 'test':
      test(args.n_test, args.filename, render=args.render, debug=args.debug)
  else:
      raise RuntimeError('undefined mode {}'.format(args.mode))
  \<close>
\<close>

definition dispatch :: "nat \<Rightarrow> 'w extern \<Rightarrow> globals \<Rightarrow> (unit, 'w) prog" where
  "dispatch fuel X g =
     (if mode (args g) = ''train'' then
        train fuel X g (n_gen (args g)) (n_episodes (args g)) (omega (args g))
          (output_dir (args g)) (debug (args g)) (render (args g))
      else if mode (args g) = ''test'' then
        test fuel X g (n_test (args g)) (filename (args g)) (debug (args g)) (render (args g))
      else raiseM (RuntimeError (''undefined mode '' @ mode (args g))))"

definition main :: "nat \<Rightarrow> 'w extern \<Rightarrow> args \<Rightarrow> (unit, 'w) prog" where
  "main fuel X a = bindM (startup X a) (dispatch fuel X)"

section \<open>Observations on traces\<close>

text \<open>The seeding calls among the events of a run.\<close>

fun is_seeding :: "event \<Rightarrow> bool" where
  "is_seeding (NpRandomSeed s) = True"
| "is_seeding (EnvSeed s) = True"
| "is_seeding _ = False"

text \<open>
  The main block reaches its seeding statement when the three subscripts and the
  conversion \<^verbatim>\<open>int(...)\<close> before it raise nothing.
\<close>

definition reaches_seeding :: "'w extern \<Rightarrow> bool" where
  "reaches_seeding X = (observation_space_shape X \<noteq> [] \<and> action_space_shape X \<noteq> [] \<and>
     (case action_space_high X of
        [] \<Rightarrow> False
      | h # hs \<Rightarrow> (case py_int h of Inl e \<Rightarrow> False | Inr m \<Rightarrow> True)))"


text \<open>
  What \<^verbatim>\<open>np.clip(x, -m, m)\<close> can return: NaN; for a bound that is not negative, a float in
  \<open>[-m, m]\<close>; for a negative bound, where the interval is empty, the bound itself.
\<close>

definition clipped_entry :: "int \<Rightarrow> pyfloat \<Rightarrow> bool" where
  "clipped_entry m x =
     (x = NaN \<or>
      (if 0 \<le> m then fle (Float (- real_of_int m)) x \<and> fle x (Float (real_of_int m))
       else x = Float (real_of_int m)))"

fun clipped :: "int \<Rightarrow> event \<Rightarrow> bool" where
  "clipped m (EnvStep a d) = list_all (clipped_entry m) a"
| "clipped m _ = True"

text \<open>An action handed to \<^verbatim>\<open>env.step\<close> is zero in every entry.\<close>

fun zero_action :: "event \<Rightarrow> bool" where
  "zero_action (EnvStep a d) = list_all (\<lambda>x. x = Float 0) a"
| "zero_action _ = True"

text \<open>An action handed to \<^verbatim>\<open>env.step\<close> is zero or NaN in every entry.\<close>

fun zero_or_nan :: "event \<Rightarrow> bool" where
  "zero_or_nan (EnvStep a d) = list_all (\<lambda>x. x = Float 0 \<or> x = NaN) a"
| "zero_or_nan _ = True"

text \<open>A float that is neither NaN nor an infinity.\<close>

fun is_finite :: "pyfloat \<Rightarrow> bool" where
  "is_finite (Float x) = True"
| "is_finite _ = False"

text \<open>
  The environment's view of a run of \<^verbatim>\<open>evaluate\<close>: between episodes (\<open>Idle\<close>), inside one
  (\<open>Running\<close>), and after the done signal (\<open>Ended\<close>), with the number of episodes
  completed. An episode opens with a reset, steps while done is False, and closes with a
  second reset after the step whose done is True; a step outside an episode or after
  the done signal, and a reset inside an episode, are refused. Calls on anything but the
  environment's reset and step are passed over.
\<close>

datatype phase = Idle | Running | Ended

fun env_phase :: "phase \<times> nat \<Rightarrow> event \<Rightarrow> (phase \<times> nat) option" where
  "env_phase (Idle, k) EnvReset = Some (Running, k)"
| "env_phase (Running, k) EnvReset = None"
| "env_phase (Ended, k) EnvReset = Some (Idle, Suc k)"
| "env_phase (Running, k) (EnvStep a d) = (if d then Some (Ended, k) else Some (Running, k))"
| "env_phase (Idle, k) (EnvStep a d) = None"
| "env_phase (Ended, k) (EnvStep a d) = None"
| "env_phase s ev = Some s"

fun env_run :: "phase \<times> nat \<Rightarrow> event list \<Rightarrow> (phase \<times> nat) option" where
  "env_run s [] = Some s"
| "env_run s (ev # evs) = (case env_phase s ev of None \<Rightarrow> None | Some s1 \<Rightarrow> env_run s1 evs)"

text \<open>The calls that are not the environment's reset or step.\<close>

fun is_quiet :: "event \<Rightarrow> bool" where
  "is_quiet EnvReset = False"
| "is_quiet (EnvStep a d) = False"
| "is_quiet _ = True"

text \<open>
  The calls \<^verbatim>\<open>train_es\<close> can make up to the statement that looks up \<^verbatim>\<open>actor_grad\<close>.
\<close>

fun before_lookup :: "event \<Rightarrow> bool" where
  "before_lookup EsAsk = True"
| "before_lookup (EsTell fitness ps) = True"
| "before_lookup (PrLightPurple s f) = True"
| "before_lookup EnvReset = True"
| "before_lookup (EnvStep a d) = True"
| "before_lookup EnvRender = True"
| "before_lookup ActionSpaceSample = True"
| "before_lookup NoiseSample = True"
| "before_lookup (MemoryAdd a b c d e) = True"
| "before_lookup _ = False"

text \<open>The events a run of \<^verbatim>\<open>train_es\<close> must not lack if it injects a gradient.\<close>

fun is_injection :: "event \<Rightarrow> bool" where
  "is_injection (EsAdd grad f) = True"
| "is_injection (ActorGradient n) = True"
| "is_injection _ = False"

fun is_env_step :: "event \<Rightarrow> bool" where
  "is_env_step (EnvStep a d) = True"
| "is_env_step _ = False"

fun is_to_pickle :: "event \<Rightarrow> bool" where
  "is_to_pickle (ToPickle p rows) = True"
| "is_to_pickle _ = False"

section \<open>A stub environment\<close>

text \<open>
  The deterministic environment of the end-to-end scenario: episodes of five steps, reward
  1 at each step whatever the action. The world is the number of steps taken in the
  current episode. The evolution strategy proposes four members, all zero, of the size of
  the actor for one state and one action dimension; the network body returns one zero.
  Sums of finite numbers are exact, conversions and roundings change nothing.
\<close>

fun stub_add :: "pyfloat \<Rightarrow> pyfloat \<Rightarrow> pyfloat" where
  "stub_add NaN y = NaN"
| "stub_add x NaN = NaN"
| "stub_add PosInf NegInf = NaN"
| "stub_add NegInf PosInf = NaN"
| "stub_add PosInf y = PosInf"
| "stub_add x PosInf = PosInf"
| "stub_add NegInf y = NegInf"
| "stub_add x NegInf = NegInf"
| "stub_add (Float a) (Float b) = Float (a + b)"

definition stub_mean :: "pyfloat list \<Rightarrow> pyfloat" where
  "stub_mean xs =
     (case foldr stub_add xs (Float 0) of
        Float s \<Rightarrow> Float (s / real (length xs))
      | other \<Rightarrow> other)"

definition stub :: "nat extern" where
  "stub = \<lparr>
     observation_space_shape = [1],
     action_space_shape = [1],
     action_space_high = [Float 1],
     env_reset = (\<lambda>w. ([Float 0], 0)),
     env_step = (\<lambda>a w. (([Float 0], Float 1, 5 \<le> Suc w), Suc w)),
     action_space_sample = (\<lambda>w. ([Float 0], w)),
     es_ask = (\<lambda>w. ([replicate 17409 (Float 0), replicate 17409 (Float 0),
                       replicate 17409 (Float 0), replicate 17409 (Float 0)], w)),
     es_mu = (\<lambda>w. replicate 17409 (Float 0)),
     torch_init = (\<lambda>s w. (replicate (prod_list s) (Float 0), w)),
     torch_load = (\<lambda>p w. if p = ''run/actor.pkl''
                     then Some (map (\<lambda>s. \<lparr>tsize = s, data = replicate (prod_list s) (Float 0)\<rparr>)
                                  (ActorERL_shapes 1 1))
                     else None),
     tanh_layers = (\<lambda>net x. [Float 0]),
     actor_gradient = (\<lambda>net n w. (replicate 17409 (Float 0), w)),
     np_add = stub_add,
     np_mean = stub_mean,
     to_float32 = (\<lambda>x. x),
     torch_round = Float,
     get_output_folder = (\<lambda>parent e w. (parent @ ''/'' @ e @ ''-run0'', w)),
     effect = (\<lambda>ev w. w) \<rparr>"

text \<open>
  The same environment with an action bound of one half, and a network body that returns
  its largest value; the globals are those the main block derives for it. And the two
  environments with a network body that returns NaN, as a network does once a parameter
  or an observation is NaN.
\<close>

definition stub_half :: "nat extern" where
  "stub_half = stub\<lparr>action_space_high := [Float (1 / 2)], tanh_layers := (\<lambda>net x. [Float 1])\<rparr>"


definition stub_half_nan :: "nat extern" where
  "stub_half_nan = stub_half\<lparr>tanh_layers := (\<lambda>net x. [NaN])\<rparr>"

definition stub_args :: args where
  "stub_args = \<lparr> mode = ''train'', env = ''Stub-v0'', start_steps = 10000, use_td3 = False,
     n_gen = 2, n_episodes = 1, omega = 10, mem_size = 1000000, filename = ''run'',
     n_test = 1, output_dir = ''results'', debug = False, seed = - 1, render = False \<rparr>"

definition stub_half_globals :: globals where
  "stub_half_globals = \<lparr>args = stub_args\<lparr>output_dir := ''results/Stub-v0-run0''\<rparr>,
     state_dim = 1, action_dim = 1, max_action = 0\<rparr>"

definition stub_globals :: globals where
  "stub_globals = \<lparr> args = stub_args, state_dim = 1, action_dim = 1, max_action = 1 \<rparr>"

definition stub_actor :: actorERL where
  "stub_actor = \<lparr>parameters = [], self_max_action = 1\<rparr>"

definition stub_net :: "int network" where
  "stub_net = [\<lparr>tsize = [2], data = [0, 0]\<rparr>, \<lparr>tsize = [1], data = [0]\<rparr>]"

section \<open>A logic of runs\<close>

text \<open>
  \<open>sat P Q m\<close>: from every world, every call that \<open>m\<close> makes satisfies \<open>P\<close>, and a value
  that \<open>m\<close> returns satisfies \<open>Q\<close>.
\<close>

definition sat :: "(event \<Rightarrow> bool) \<Rightarrow> ('a \<Rightarrow> bool) \<Rightarrow> ('a, 'w) prog \<Rightarrow> bool" where
  "sat P Q m = (\<forall>w. list_all P (trace (m w)) \<and>
     (case outcome_of (m w) of Returned x \<Rightarrow> Q x | Raised e \<Rightarrow> True | OutOfFuel \<Rightarrow> True))"

section \<open>set_params and get_params\<close>

lemma set_params_loop_scalar:
  "tsize p = [] \<Longrightarrow>
   set_params_loop cast v cpt (p # rest) =
     (Some (TypeError ''slice indices must be integers''), p # rest)"
  by simp

lemma set_params_loop_view_fails:
  "tsize p \<noteq> [] \<Longrightarrow> length (take (np_product (tsize p)) (drop cpt v)) \<noteq> np_product (tsize p) \<Longrightarrow>
   set_params_loop cast v cpt (p # rest) =
     (Some (RuntimeError ''shape is invalid for input size''), p # rest)"
  by (simp only: set_params_loop.simps Let_def simp_thms if_True if_False)

lemma set_params_loop_copy:
  "tsize p \<noteq> [] \<Longrightarrow> length (take (np_product (tsize p)) (drop cpt v)) = np_product (tsize p) \<Longrightarrow>
   set_params_loop cast v cpt (p # rest) =
     (fst (set_params_loop cast v (cpt + np_product (tsize p)) rest),
      p\<lparr>data := map cast (take (np_product (tsize p)) (drop cpt v))\<rparr> #
        snd (set_params_loop cast v (cpt + np_product (tsize p)) rest))"
  by (simp only: set_params_loop.simps Let_def simp_thms if_True if_False split_beta)

lemma overwritten_Nil: "overwritten cast v [] = []"
  by (simp add: overwritten_def)

lemma overwritten_stop:
  "length v < np_product (tsize p) \<Longrightarrow> overwritten cast v (p # rest) = p # rest"
  by (simp add: overwritten_def)

lemma overwritten_step:
  "np_product (tsize p) \<le> length v \<Longrightarrow>
   overwritten cast v (p # rest) =
     p\<lparr>data := map cast (take (np_product (tsize p)) v)\<rparr> #
       overwritten cast (drop (np_product (tsize p)) v) rest"
  by (simp add: overwritten_def Let_def)

text \<open>The loop in closed form, from any position inside the vector.\<close>

lemma set_params_loop_eq:
  "\<forall>p\<in>set net. tsize p \<noteq> [] \<Longrightarrow> cpt \<le> length v \<Longrightarrow>
   set_params_loop cast v cpt net =
     (if length v - cpt < n_params net
      then Some (RuntimeError ''shape is invalid for input size'') else None,
      overwritten cast (drop cpt v) net)"
proof (induction net arbitrary: cpt)
  case Nil
  show ?case by (simp add: n_params_def overwritten_Nil)
next
  case (Cons p net)
  let ?n = "np_product (tsize p)"
  from Cons.prems have nz: "\<forall>q\<in>set net. tsize q \<noteq> []" "tsize p \<noteq> []" by simp_all
  have np: "n_params (p # net) = ?n + n_params net" by (simp add: n_params_def)
  show ?case
  proof (cases "?n \<le> length v - cpt")
    case False
    then have len: "length (take ?n (drop cpt v)) \<noteq> ?n" by simp
    from False have stop: "overwritten cast (drop cpt v) (p # net) = p # net"
      by (simp add: overwritten_stop)
    from False have short: "length v - cpt < n_params (p # net)" by (simp add: np)
    show ?thesis
      by (simp only: set_params_loop_view_fails [OF nz(2) len] stop short if_True)
  next
    case True
    then have len: "length (take ?n (drop cpt v)) = ?n" by simp
    from True Cons.prems(2) have le: "cpt + ?n \<le> length v" by simp
    have step: "overwritten cast (drop cpt v) (p # net) =
        p\<lparr>data := map cast (take ?n (drop cpt v))\<rparr> # overwritten cast (drop (cpt + ?n) v) net"
      using True by (simp add: overwritten_step add.commute)
    have cond: "(length v - (cpt + ?n) < n_params net) = (length v - cpt < n_params (p # net))"
      using True by (simp add: np) arith
    show ?thesis
      by (simp only: set_params_loop_copy [OF nz(2) len] Cons.IH [OF nz(1) le] step fst_conv snd_conv cond)
  qed
qed

lemma covered_all: "sum_list ns \<le> len \<Longrightarrow> covered len ns = length ns"
  by (induction ns arbitrary: len) simp_all

lemma covered_short: "len < sum_list ns \<Longrightarrow> covered len ns < length ns"
  by (induction ns arbitrary: len) auto

lemma map2_data_slices:
  "length ns = length net \<Longrightarrow>
   map data (map2 (\<lambda>p s. p\<lparr>data := map cast s\<rparr>) net (slices v ns)) = map (map cast) (slices v ns) \<and>
   map tsize (map2 (\<lambda>p s. p\<lparr>data := map cast s\<rparr>) net (slices v ns)) = map tsize net"
  by (induction net arbitrary: ns v) (auto simp: length_Suc_conv)

lemma concat_slices: "concat (slices v ns) = take (sum_list ns) v"
proof (induction ns arbitrary: v)
  case Nil
  then show ?case by simp
next
  case (Cons n ns)
  show ?case by (simp add: Cons.IH take_add)
qed

lemma length_flat_params:
  "\<forall>p\<in>set net. numel_ok p \<Longrightarrow> length (concat (map data net)) = n_params net"
  by (induction net) (simp_all add: n_params_def numel_ok_def)

lemma set_params_loop_own:
  "\<forall>p\<in>set net. numel_ok p \<Longrightarrow>
   snd (set_params_loop (\<lambda>x. x) (pre @ concat (map data net) @ post) (length pre) net) = net"
proof (induction net arbitrary: pre)
  case Nil
  then show ?case by simp
next
  case (Cons p net)
  from Cons.prems have ok: "length (data p) = np_product (tsize p)" "\<forall>q\<in>set net. numel_ok q"
    by (simp_all add: numel_ok_def)
  have sl: "take (np_product (tsize p)) (drop (length pre) (pre @ concat (map data (p # net)) @ post)) = data p"
    using ok(1) by simp
  have ih: "snd (set_params_loop (\<lambda>x. x) ((pre @ data p) @ concat (map data net) @ post) (length (pre @ data p)) net) = net"
    by (rule Cons.IH [OF ok(2)])
  show ?case
  proof (cases "tsize p = []")
    case True
    then show ?thesis by simp
  next
    case False
    have len: "length (take (np_product (tsize p)) (drop (length pre) (pre @ concat (map data (p # net)) @ post))) = np_product (tsize p)"
      by (simp only: sl ok(1))
    have v: "pre @ concat (map data (p # net)) @ post = (pre @ data p) @ concat (map data net) @ post"
      by simp
    have c: "length pre + np_product (tsize p) = length (pre @ data p)"
      using ok(1) by simp
    have "snd (set_params_loop (\<lambda>x. x) (pre @ concat (map data (p # net)) @ post) (length pre) (p # net)) =
          p\<lparr>data := map (\<lambda>x. x) (data p)\<rparr> # snd (set_params_loop (\<lambda>x. x) (pre @ concat (map data (p # net)) @ post) (length pre + np_product (tsize p)) net)"
      by (simp only: set_params_loop_copy [OF False len] snd_conv sl)
    also have "\<dots> = p # net" by (simp only: v c ih) simp
    finally show ?thesis .
  qed
qed

text \<open>
  C4 (amended). For a network whose tensors all have at least one dimension (every
  architecture of models.py), \<open>set_params\<close> raises exactly when the vector is shorter
  than the parameter count, and in every case it leaves the network \<open>overwritten\<close>
  describes: the tensors that the vector covers in full hold their contiguous slices, in
  declaration order, each element converted to the parameter's dtype, and the other
  tensors are as they were. So a vector too short has overwritten the tensors before the
  failing one when the exception comes; a vector at least as long as the count is
  accepted, every tensor is overwritten with its shape kept, and the elements beyond the
  count are ignored.
\<close>

theorem set_params_length:
  assumes "\<forall>p\<in>set net. tsize p \<noteq> []"
  shows "set_params cast v net =
           (if length v < n_params net
            then Some (RuntimeError ''shape is invalid for input size'') else None,
            overwritten cast v net) \<and>
         (length v < n_params net \<longrightarrow>
            covered (length v) (map (\<lambda>p. np_product (tsize p)) net) < length net) \<and>
         (n_params net \<le> length v \<longrightarrow>
            covered (length v) (map (\<lambda>p. np_product (tsize p)) net) = length net \<and>
            map tsize (snd (set_params cast v net)) = map tsize net \<and>
            map data (snd (set_params cast v net)) =
              map (map cast) (slices v (map (\<lambda>p. np_product (tsize p)) net)) \<and>
            concat (map data (snd (set_params cast v net))) = map cast (take (n_params net) v))"
proof (intro conjI impI)
  let ?ns = "map (\<lambda>p. np_product (tsize p)) net"
  show run: "set_params cast v net =
           (if length v < n_params net
            then Some (RuntimeError ''shape is invalid for input size'') else None,
            overwritten cast v net)"
    using set_params_loop_eq [OF assms, of 0 v cast] by (simp add: set_params_def)
  {
    assume "length v < n_params net"
    then show "covered (length v) ?ns < length net"
      using covered_short [of "length v" ?ns] by (simp add: n_params_def)
  }
  assume le: "n_params net \<le> length v"
  then show all: "covered (length v) ?ns = length net"
    using covered_all [of ?ns "length v"] by (simp add: n_params_def)
  have net': "snd (set_params cast v net) = map2 (\<lambda>p s. p\<lparr>data := map cast s\<rparr>) net (slices v ?ns)"
    by (simp add: run overwritten_def all)
  have m: "map data (snd (set_params cast v net)) = map (map cast) (slices v ?ns)"
          "map tsize (snd (set_params cast v net)) = map tsize net"
    using map2_data_slices [of ?ns net cast v] by (simp_all add: net')
  show "map tsize (snd (set_params cast v net)) = map tsize net" by (rule m(2))
  show "map data (snd (set_params cast v net)) = map (map cast) (slices v ?ns)" by (rule m(1))
  show "concat (map data (snd (set_params cast v net))) = map cast (take (n_params net) v)"
    by (simp only: m(1) map_concat [symmetric] concat_slices n_params_def)
qed

theorem set_params_length_witness:
  "length [1, 2 :: int] < n_params stub_net \<and>
   set_params (\<lambda>x. 2 * (x div 2)) [1, 2] stub_net =
     (Some (RuntimeError ''shape is invalid for input size''),
      [\<lparr>tsize = [2], data = [0, 2]\<rparr>, \<lparr>tsize = [1], data = [0]\<rparr>]) \<and>
   n_params stub_net \<le> length [1, 2, 3, 4 :: int] \<and>
   set_params (\<lambda>x. 2 * (x div 2)) [1, 2, 3, 4] stub_net =
     (None, [\<lparr>tsize = [2], data = [0, 2]\<rparr>, \<lparr>tsize = [1], data = [2]\<rparr>])"
  using set_params_length [of stub_net "\<lambda>x. 2 * (x div 2)" "[1, 2]"]
    set_params_length [of stub_net "\<lambda>x. 2 * (x div 2)" "[1, 2, 3, 4]"]
  by (simp add: stub_net_def n_params_def np_product_def overwritten_def)

text \<open>
  C4, as stated, fails: a vector of two elements is loaded into a network of one
  parameter without any exception.
\<close>

theorem set_params_longer_counterexample:
  "length [7, 8 :: int] \<noteq> n_params [\<lparr>tsize = [1], data = [0 :: int]\<rparr>] \<and>
   set_params (\<lambda>x. x) [7, 8] [\<lparr>tsize = [1], data = [0 :: int]\<rparr>] =
     (None, [\<lparr>tsize = [1], data = [7]\<rparr>])"
  by (simp add: set_params_def n_params_def np_product_def)

text \<open>
  C5. \<^verbatim>\<open>set_params(get_params())\<close> leaves every learnable tensor as it was, so whatever is
  computed from the network (its output on a batch) is the same before and after; and
  on a network with a tensor, none of them 0-dimensional, the round trip raises nothing.
\<close>

theorem set_params_get_params_noop:
  assumes "\<forall>p\<in>set net. numel_ok p"
  shows "snd (set_params_get_params net) = net \<and>
         forward (snd (set_params_get_params net)) batch = forward net batch \<and>
         (net \<noteq> [] \<and> (\<forall>p\<in>set net. tsize p \<noteq> []) \<longrightarrow> fst (set_params_get_params net) = None)"
proof -
  have own: "snd (set_params_loop (\<lambda>x. x) (concat (map data net)) 0 net) = net"
    using set_params_loop_own [OF assms, of "[]" "[]"] by simp
  have same: "snd (set_params_get_params net) = net"
    by (cases "net = []") (simp_all add: set_params_get_params_def get_params_def flatten_def to_numpy_def own set_params_def)
  have quiet: "fst (set_params_get_params net) = None"
    if "net \<noteq> []" "\<forall>p\<in>set net. tsize p \<noteq> []"
    using that set_params_loop_eq [OF that(2), of 0 "concat (map data net)" "\<lambda>x. x"] length_flat_params [OF assms]
    by (simp add: set_params_get_params_def get_params_def flatten_def to_numpy_def set_params_def)
  from same quiet show ?thesis by simp
qed

theorem set_params_get_params_noop_witness:
  "set_params_get_params [\<lparr>tsize = [2], data = [5, 6 :: int]\<rparr>, \<lparr>tsize = [1, 1], data = [7]\<rparr>] =
     (None, [\<lparr>tsize = [2], data = [5, 6]\<rparr>, \<lparr>tsize = [1, 1], data = [7]\<rparr>])"
  using set_params_get_params_noop
    [of "[\<lparr>tsize = [2], data = [5, 6 :: int]\<rparr>, \<lparr>tsize = [1, 1], data = [7]\<rparr>]" "\<lambda>n b. n" "()"]
  by (simp add: numel_ok_def np_product_def prod_eq_iff)

section \<open>Rules of the logic of runs\<close>

lemma satI:
  assumes "\<And>w r evs w1. m w = (r, evs, w1) \<Longrightarrow> list_all P evs \<and> (\<forall>x. r = Returned x \<longrightarrow> Q x)"
  shows "sat P Q m"
  unfolding sat_def
proof
  fix w
  obtain r evs w1 where run: "m w = (r, evs, w1)" by (cases "m w") auto
  from assms [OF run] show "list_all P (trace (m w)) \<and>
      (case outcome_of (m w) of Returned x \<Rightarrow> Q x | Raised e \<Rightarrow> True | OutOfFuel \<Rightarrow> True)"
    by (cases r) (simp_all add: run trace_def outcome_of_def)
qed

lemma satD:
  assumes "sat P Q m" "m w = (r, evs, w1)"
  shows "list_all P evs \<and> (\<forall>x. r = Returned x \<longrightarrow> Q x)"
proof -
  from assms(1) have "list_all P (trace (m w)) \<and>
      (case outcome_of (m w) of Returned x \<Rightarrow> Q x | Raised e \<Rightarrow> True | OutOfFuel \<Rightarrow> True)"
    unfolding sat_def by blast
  then show ?thesis by (cases r) (simp_all add: assms(2) trace_def outcome_of_def)
qed

lemma sat_returnM: "Q x \<Longrightarrow> sat P Q (returnM x)"
  by (rule satI) (auto simp: returnM_def)

lemma sat_raiseM: "sat P Q (raiseM e)"
  by (rule satI) (auto simp: raiseM_def)

lemma sat_call: "P ev \<Longrightarrow> Q () \<Longrightarrow> sat P Q (call X ev)"
  by (rule satI) (auto simp: call_def)

lemma sat_call_result: "(\<And>x. P (ev x) \<and> Q x) \<Longrightarrow> sat P Q (call_result ev f)"
  by (rule satI) (auto simp: call_result_def split: prod.splits)

lemma sat_bindM:
  assumes m: "sat P R m" and f: "\<And>x. R x \<Longrightarrow> sat P Q (f x)"
  shows "sat P Q (bindM m f)"
proof (rule satI)
  fix w r evs w1
  assume run: "bindM m f w = (r, evs, w1)"
  obtain r0 evs0 w0 where m0: "m w = (r0, evs0, w0)" by (cases "m w") auto
  note d0 = satD [OF m m0]
  show "list_all P evs \<and> (\<forall>x. r = Returned x \<longrightarrow> Q x)"
  proof (cases r0)
    case (Returned y)
    obtain r2 evs2 w2 where f2: "f y w0 = (r2, evs2, w2)" by (cases "f y w0") auto
    from d0 Returned have "R y" by simp
    note d2 = satD [OF f [OF this] f2]
    from run m0 Returned f2 have "r = r2" "evs = evs0 @ evs2"
      by (simp_all add: bindM_def)
    with d0 d2 show ?thesis by simp
  next
    case (Raised e)
    with run m0 d0 show ?thesis by (auto simp: bindM_def)
  next
    case OutOfFuel
    with run m0 d0 show ?thesis by (auto simp: bindM_def)
  qed
qed

lemma sat_whenM: "(b \<Longrightarrow> sat P Q m) \<Longrightarrow> (\<not> b \<Longrightarrow> Q ()) \<Longrightarrow> sat P Q (whenM b m)"
  by (cases b) (simp_all add: whenM_def sat_returnM)

lemma sat_weaken: "sat P Q m \<Longrightarrow> (\<And>x. Q x \<Longrightarrow> Q' x) \<Longrightarrow> sat P Q' m"
  unfolding sat_def by (auto split: outcome.splits)

lemma sat_out_of_fuel: "sat P Q (\<lambda>w. (OutOfFuel, [], w))"
  by (rule satI) auto

lemma sat_raise_or_return: "(\<And>x. r = Inr x \<Longrightarrow> Q x) \<Longrightarrow> sat P Q (raise_or_return r)"
  by (cases r) (simp_all add: raise_or_return_def sat_raiseM sat_returnM)

text \<open>What the two comparisons of \<^verbatim>\<open>np.clip\<close> leave of any float.\<close>

lemma clip_entry:
  "clipped_entry m
     (np_minimum (np_maximum x (Float (- real_of_int m))) (Float (real_of_int m)))"
  by (cases x) (simp_all add: clipped_entry_def np_minimum_def np_maximum_def)

lemma clipped_np_clip:
  "list_all (clipped_entry m)
     (np_clip a (Float (- real_of_int m)) (Float (real_of_int m)))"
  by (simp add: np_clip_def list_all_iff clip_entry)

lemma sat_policy_noise:
  "P NoiseSample \<Longrightarrow>
   sat P (\<lambda>a. True) (case noise of
                  PyNone \<Rightarrow> returnM action
                | PyBool b \<Rightarrow> raiseM (AttributeError ''sample'')
                | NoiseProcess sample \<Rightarrow>
                    bindM (call_result (\<lambda>_. NoiseSample) sample) (\<lambda>n.
                      raise_or_return (np_iadd X action n)))"
  by (cases noise)
     (auto intro!: sat_returnM sat_raiseM sat_bindM [where R = "\<lambda>_. True"] sat_call_result
        sat_raise_or_return)

lemma sat_policy_clipped:
  assumes "P NoiseSample"
  shows "sat P (list_all (clipped_entry (max_action g))) (policy X g actor False noise st)"
  unfolding policy_def Let_def
  by (simp, rule sat_bindM [where R = "\<lambda>a. True"], rule sat_policy_noise, rule assms,
      rule sat_returnM, rule clipped_np_clip)

lemma sat_evaluate_while:
  assumes pol: "\<And>obs. sat P A (pol obs)"
    and step: "\<And>a d. A a \<Longrightarrow> P (EnvStep a d)"
    and others: "P EnvReset" "P EnvRender" "\<And>a b c d e. P (MemoryAdd a b c d e)"
  shows "sat P (\<lambda>_. True) (evaluate_while fuel X pol rend am obs score steps)"
proof (induction fuel arbitrary: obs score steps)
  case 0
  show ?case by (simp add: sat_out_of_fuel)
next
  case (Suc fuel)
  show ?case
    apply (simp only: evaluate_while.simps)
    apply (rule sat_bindM [OF pol])
    apply (rule sat_bindM [where R = "\<lambda>_. True"])
     apply (rule sat_call_result)
     apply (simp add: step split: prod.splits)
    apply (simp only: split_paired_all prod.case)
    apply (rule sat_bindM [where R = "\<lambda>_. True"])
     apply (rule sat_whenM)
      apply (rule sat_call)
       apply (rule others)
      apply simp
     apply simp
    apply (rule sat_bindM [where R = "\<lambda>_. True"])
     apply (rule sat_whenM)
      apply (rule sat_call)
       apply (rule others)
      apply simp
     apply simp
    apply (rule sat_bindM [where R = "\<lambda>_. True"])
     apply (rule sat_whenM)
      apply (rule sat_bindM [where R = "\<lambda>_. True"])
       apply (rule sat_call_result)
       apply (simp add: others)
      apply (rule sat_returnM)
      apply simp
     apply simp
    apply (simp add: sat_returnM Suc.IH)
    done
qed

lemma sat_evaluate_for:
  assumes pol: "\<And>obs. sat P A (pol obs)"
    and step: "\<And>a d. A a \<Longrightarrow> P (EnvStep a d)"
    and others: "P EnvReset" "P EnvRender" "\<And>a b c d e. P (MemoryAdd a b c d e)"
  shows "sat P (\<lambda>_. True) (evaluate_for n fuel X pol rend am scores steps)"
proof (induction n arbitrary: scores steps)
  case 0
  show ?case by (simp add: sat_returnM)
next
  case (Suc n)
  show ?case
    apply (simp only: evaluate_for.simps)
    apply (rule sat_bindM [where R = "\<lambda>_. True"])
     apply (rule sat_call_result)
     apply (simp add: others)
    apply (rule sat_bindM [where R = "\<lambda>_. True"])
     apply (rule sat_evaluate_while [OF pol step others])
     apply assumption
    apply (simp add: Suc.IH split: prod.splits)
    done
qed

lemma sat_evaluate:
  assumes pol: "sat P A (policy X g actor random noise st0)" "\<And>obs. sat P A (policy X g actor random noise obs)"
    and step: "\<And>a d. A a \<Longrightarrow> P (EnvStep a d)"
    and others: "P EnvReset" "P EnvRender" "\<And>a b c d e. P (MemoryAdd a b c d e)"
  shows "sat P (\<lambda>_. True) (evaluate fuel X g actor n_eps random noise rend am)"
  unfolding evaluate_def
  apply (rule sat_bindM [where R = "\<lambda>_. True"])
   apply (rule sat_evaluate_for [OF pol(2) step others])
   apply assumption
  apply (simp add: sat_returnM split: prod.splits)
  done

section \<open>evaluate\<close>

lemma stub_simps:
  "env_reset stub = (\<lambda>w. ([Float 0], 0))"
  "env_step stub = (\<lambda>a w. (([Float 0], Float 1, 5 \<le> Suc w), Suc w))"
  "action_space_sample stub = (\<lambda>w. ([Float 0], w))"
  "tanh_layers stub = (\<lambda>net x. [Float 0])"
  "np_add stub = stub_add"
  "np_mean stub = stub_mean"
  "to_float32 stub = (\<lambda>x. x)"
  "torch_round stub = Float"
  "effect stub = (\<lambda>ev w. w)"
  by (simp_all add: stub_def)

lemma evaluate_while_0:
  "evaluate_while 0 X pol rend am obs score steps w = (OutOfFuel, [], w)"
  by simp

lemmas run_simps = evaluate_while_0 bindM_def call_def call_result_def returnM_def raiseM_def whenM_def Let_def

lemma env_run_append:
  "env_run s (xs @ ys) = (case env_run s xs of None \<Rightarrow> None | Some s1 \<Rightarrow> env_run s1 ys)"
  by (induction xs arbitrary: s) (auto split: option.splits)

lemma env_phase_quiet: "is_quiet ev \<Longrightarrow> env_phase s ev = Some s"
  by (cases s; cases ev; cases "fst s") simp_all

lemma env_run_quiet: "list_all is_quiet evs \<Longrightarrow> env_run s evs = Some s"
  by (induction evs) (simp_all add: env_phase_quiet)

lemma sat_policy_quiet: "sat is_quiet (\<lambda>_. True) (policy X g actor random noise st)"
  unfolding policy_def Let_def
  by (cases random)
     (auto intro!: sat_bindM [where R = "\<lambda>_. True"] sat_policy_noise sat_returnM sat_call_result)

lemma evaluate_while_Suc:
  "evaluate_while (Suc fuel) X pol rend am obs score steps w =
     (case pol obs w of
        (Returned action, evs0, w0) \<Rightarrow>
          (case env_step X action w0 of
             ((n_obs, reward, done), w1) \<Rightarrow>
               let evs1 = evs0 @ [EnvStep action done] @
                          (if am then [MemoryAdd obs n_obs action reward done] else []) @
                          (if rend then [EnvRender] else []);
                   w2 = (if am then effect X (MemoryAdd obs n_obs action reward done) w1 else w1);
                   w3 = (if rend then effect X EnvRender w2 else w2)
               in if done then
                    (Returned (np_add X score reward, steps + 1), evs1 @ [EnvReset], snd (env_reset X w3))
                  else
                    (case evaluate_while fuel X pol rend am n_obs (np_add X score reward) (steps + 1) w3 of
                       (r, evs, w4) \<Rightarrow> (r, evs1 @ evs, w4)))
      | (Raised e, evs0, w0) \<Rightarrow> (Raised e, evs0, w0)
      | (OutOfFuel, evs0, w0) \<Rightarrow> (OutOfFuel, evs0, w0))"
  by (simp add: bindM_def call_def call_result_def whenM_def returnM_def Let_def
           split: prod.splits outcome.splits)


lemma evaluate_while_phase:
  assumes pol: "\<And>obs. sat is_quiet (\<lambda>_. True) (pol obs)"
  shows "env_run (Running, k) (trace (evaluate_while fuel X pol rend am obs score steps w)) =
           (case outcome_of (evaluate_while fuel X pol rend am obs score steps w) of
              Returned x \<Rightarrow> Some (Idle, Suc k)
            | Raised e \<Rightarrow> Some (Running, k)
            | OutOfFuel \<Rightarrow> Some (Running, k))"
proof (induction fuel arbitrary: obs score steps w)
  case 0
  show ?case by (simp add: trace_def outcome_of_def)
next
  case (Suc fuel)
  obtain r0 evs0 w0 where p: "pol obs w = (r0, evs0, w0)" by (cases "pol obs w") auto
  from satD [OF pol p] have q: "env_run (Running, k) evs0 = Some (Running, k)"
    by (simp add: env_run_quiet)
  show ?case
  proof (cases r0)
    case (Returned action)
    obtain n_obs reward fin w1 where st: "env_step X action w0 = ((n_obs, reward, fin), w1)"
      by (cases "env_step X action w0") auto
    show ?thesis
    proof (cases fin)
      case True
      then show ?thesis
        using p Returned st q
        by (simp add: evaluate_while_Suc trace_def outcome_of_def env_run_append Let_def del: evaluate_while.simps)
    next
      case False
      with st have st0: "env_step X action w0 = ((n_obs, reward, False), w1)" by simp
      define w2 where "w2 = (if am then effect X (MemoryAdd obs n_obs action reward False) w1 else w1)"
      define w3 where "w3 = (if rend then effect X EnvRender w2 else w2)"
      obtain r evs w4 where rec: "evaluate_while fuel X pol rend am n_obs (np_add X score reward) (steps + 1) w3 = (r, evs, w4)"
        by (cases "evaluate_while fuel X pol rend am n_obs (np_add X score reward) (steps + 1) w3") auto
      from Suc.IH [where obs = n_obs and score = "np_add X score reward" and steps = "steps + 1" and w = w3] rec
      have ih: "env_run (Running, k) evs =
           (case r of Returned x \<Rightarrow> Some (Idle, Suc k) | Raised e \<Rightarrow> Some (Running, k)
            | OutOfFuel \<Rightarrow> Some (Running, k))"
        by (simp add: trace_def outcome_of_def)
      have run: "evaluate_while (Suc fuel) X pol rend am obs score steps w =
          (r, (evs0 @ [EnvStep action False] @
                (if am then [MemoryAdd obs n_obs action reward False] else []) @
                (if rend then [EnvRender] else [])) @ evs, w4)"
        using p Returned st0 rec
        by (simp only: evaluate_while_Suc prod.case outcome.case Let_def if_False w2_def [symmetric] w3_def [symmetric])
      have quiet: "env_run (Running, k) ((if am then [MemoryAdd obs n_obs action reward False] else []) @
                (if rend then [EnvRender] else [])) = Some (Running, k)"
        by simp
      show ?thesis
        unfolding run trace_def outcome_of_def fst_conv snd_conv
        using q ih by (simp add: env_run_append)
    qed
  next
    case (Raised e)
    then show ?thesis using p q by (simp add: evaluate_while_Suc trace_def outcome_of_def del: evaluate_while.simps)
  next
    case OutOfFuel
    then show ?thesis using p q by (simp add: evaluate_while_Suc trace_def outcome_of_def del: evaluate_while.simps)
  qed
qed

lemma evaluate_for_phase:
  assumes pol: "\<And>obs. sat is_quiet (\<lambda>_. True) (pol obs)"
  shows "case outcome_of (evaluate_for n fuel X pol rend am scores steps w) of
           Returned x \<Rightarrow>
             env_run (Idle, k) (trace (evaluate_for n fuel X pol rend am scores steps w)) = Some (Idle, k + n)
         | Raised e \<Rightarrow>
             (\<exists>j. k \<le> j \<and> j < k + n \<and>
              env_run (Idle, k) (trace (evaluate_for n fuel X pol rend am scores steps w)) = Some (Running, j))
         | OutOfFuel \<Rightarrow>
             (\<exists>j. k \<le> j \<and> j < k + n \<and>
              env_run (Idle, k) (trace (evaluate_for n fuel X pol rend am scores steps w)) = Some (Running, j))"
proof (induction n arbitrary: k scores steps w)
  case 0
  show ?case by (simp add: returnM_def outcome_of_def trace_def)
next
  case (Suc n)
  obtain obs w1 where rs: "env_reset X w = (obs, w1)" by (cases "env_reset X w") auto
  obtain r evs w2 where wh: "evaluate_while fuel X pol rend am obs (Float 0) steps w1 = (r, evs, w2)"
    by (cases "evaluate_while fuel X pol rend am obs (Float 0) steps w1") auto
  from evaluate_while_phase [where pol = pol and k = k and fuel = fuel and X = X and rend = rend and am = am and obs = obs and score = "Float 0" and steps = steps and w = w1, OF pol] wh
  have ph: "env_run (Running, k) evs =
      (case r of Returned x \<Rightarrow> Some (Idle, Suc k) | Raised e \<Rightarrow> Some (Running, k)
       | OutOfFuel \<Rightarrow> Some (Running, k))"
    by (simp add: trace_def outcome_of_def)
  show ?case
  proof (cases r)
    case (Returned x)
    obtain score steps1 where x: "x = (score, steps1)" by (cases x) auto
    obtain r3 evs3 w3 where rec: "evaluate_for n fuel X pol rend am (scores @ [score]) steps1 w2 = (r3, evs3, w3)"
      by (cases "evaluate_for n fuel X pol rend am (scores @ [score]) steps1 w2") auto
    from Suc.IH [where scores = "scores @ [score]" and steps = steps1 and w = w2 and k = "Suc k"] rec
    have ih: "case r3 of
           Returned x \<Rightarrow> env_run (Idle, Suc k) evs3 = Some (Idle, Suc k + n)
         | Raised e \<Rightarrow> (\<exists>j. Suc k \<le> j \<and> j < Suc k + n \<and> env_run (Idle, Suc k) evs3 = Some (Running, j))
         | OutOfFuel \<Rightarrow> (\<exists>j. Suc k \<le> j \<and> j < Suc k + n \<and> env_run (Idle, Suc k) evs3 = Some (Running, j))"
      by (cases r3) (simp_all add: trace_def outcome_of_def)
    have run: "evaluate_for (Suc n) fuel X pol rend am scores steps w = (r3, EnvReset # evs @ evs3, w3)"
      using rs wh Returned x rec by (simp add: bindM_def call_result_def)
    show ?thesis
      unfolding run trace_def outcome_of_def fst_conv snd_conv
      using ih ph Returned
      by (cases r3) (auto simp: env_run_append intro: Suc_leD)
  next
    case (Raised e)
    have run: "evaluate_for (Suc n) fuel X pol rend am scores steps w = (Raised e, EnvReset # evs, w2)"
      using rs wh Raised by (simp add: bindM_def call_result_def)
    show ?thesis
      unfolding run trace_def outcome_of_def fst_conv snd_conv
      using ph Raised by simp
  next
    case OutOfFuel
    have run: "evaluate_for (Suc n) fuel X pol rend am scores steps w = (OutOfFuel, EnvReset # evs, w2)"
      using rs wh OutOfFuel by (simp add: bindM_def call_result_def)
    show ?thesis
      unfolding run trace_def outcome_of_def fst_conv snd_conv
      using ph OutOfFuel by simp
  qed
qed

lemma bindM_returnM_trace:
  "trace (bindM m (\<lambda>x. returnM (f x)) w) = trace (m w)"
  by (cases "m w" rule: prod_cases3; case_tac a) (simp_all add: bindM_def returnM_def trace_def)


lemma bindM_returnM_outcome:
  "outcome_of (bindM m (\<lambda>x. returnM (f x)) w) =
     (case outcome_of (m w) of Returned x \<Rightarrow> Returned (f x) | Raised e \<Rightarrow> Raised e
      | OutOfFuel \<Rightarrow> OutOfFuel)"
  by (cases "m w" rule: prod_cases3; case_tac a) (simp_all add: bindM_def returnM_def outcome_of_def)

text \<open>
  C8. Seen from the environment, every run of \<^verbatim>\<open>evaluate\<close> is a sequence of episodes, each a
  reset, steps whose done signal is False, one step whose done signal is True, and a second
  reset: an episode ends exactly at the done signal, and the environment is reset at the
  start of the episode and again right after the signal (a memory write and a render may
  stand between the last step and the second reset). When \<^verbatim>\<open>evaluate\<close> returns it has run
  \<^verbatim>\<open>n_episodes\<close> such episodes; when it raises, or a loop is cut off, the run stands inside
  an episode whose done signal has not come.
\<close>

theorem evaluate_episodes:
  "case outcome_of (evaluate fuel X g actor n_eps random noise rend am w) of
     Returned x \<Rightarrow>
       env_run (Idle, 0) (trace (evaluate fuel X g actor n_eps random noise rend am w)) =
         Some (Idle, nat n_eps)
   | Raised e \<Rightarrow>
       (\<exists>j < nat n_eps.
          env_run (Idle, 0) (trace (evaluate fuel X g actor n_eps random noise rend am w)) =
            Some (Running, j))
   | OutOfFuel \<Rightarrow>
       (\<exists>j < nat n_eps.
          env_run (Idle, 0) (trace (evaluate fuel X g actor n_eps random noise rend am w)) =
            Some (Running, j))"
proof -
  let ?for = "evaluate_for (nat n_eps) fuel X (policy X g actor random noise) rend am [] 0"
  have ev: "evaluate fuel X g actor n_eps random noise rend am =
            bindM ?for (\<lambda>x. returnM (mean_scores X (fst x), snd x))"
    by (simp add: evaluate_def split_def)
  have tr: "trace (evaluate fuel X g actor n_eps random noise rend am w) = trace (?for w)"
    by (simp only: ev bindM_returnM_trace)
  have out: "outcome_of (evaluate fuel X g actor n_eps random noise rend am w) =
     (case outcome_of (?for w) of Returned x \<Rightarrow> Returned (mean_scores X (fst x), snd x)
      | Raised e \<Rightarrow> Raised e | OutOfFuel \<Rightarrow> OutOfFuel)"
    by (simp only: ev bindM_returnM_outcome)
  from evaluate_for_phase [where pol = "policy X g actor random noise" and k = 0
      and n = "nat n_eps" and fuel = fuel and X = X and rend = rend and am = am
      and scores = "[]" and steps = 0 and w = w, OF sat_policy_quiet]
  show ?thesis
    unfolding tr out by (cases "outcome_of (?for w)") simp_all
qed

theorem evaluate_episodes_witness:
  "outcome_of (evaluate 5 stub stub_globals stub_actor 2 True PyNone False True 0) =
     Returned (Float 5, 10) \<and>
   env_run (Idle, 0) (trace (evaluate 5 stub stub_globals stub_actor 2 True PyNone False True 0)) =
     Some (Idle, 2)"
proof -
  have out: "outcome_of (evaluate 5 stub stub_globals stub_actor 2 True PyNone False True 0) =
     Returned (Float 5, 10)"
    by (simp add: evaluate_def policy_def eval_nat_numeral evaluate_while_Suc stub_simps
          mean_scores_def stub_mean_def run_simps outcome_of_def del: evaluate_while.simps)
  from evaluate_episodes [of 5 stub stub_globals stub_actor 2 True PyNone False True 0] out
  show ?thesis by simp
qed






section \<open>The main block\<close>

lemma startup_run:
  assumes "observation_space_shape X = sd # sds" "action_space_shape X = ad # ads"
    "action_space_high X = h # hs" "py_int h = Inr m"
  shows "outcome_of (startup X a w) =
           Returned \<lparr>args = a\<lparr>output_dir := fst (get_output_folder X (output_dir a) (env a) w)\<rparr>,
                     state_dim = sd, action_dim = ad, max_action = m\<rparr> \<and>
         trace (startup X a w) =
           [GetOutputFolder (output_dir a) (env a), GymMake (env a)] @
           (if seed a > 0 then [NpRandomSeed (seed a), EnvSeed (seed a)] else []) @
           [MemoryInit (mem_size a), NoiseInit, AgentInit (use_td3 a), EsInit]"
  using assms
  by (simp add: startup_def index0_def raise_or_return_def run_simps outcome_of_def trace_def
        split: prod.splits)

lemma startup_stops:
  assumes "\<not> reaches_seeding X"
  shows "(\<exists>e. outcome_of (startup X a w) = Raised e) \<and>
         trace (startup X a w) = [GetOutputFolder (output_dir a) (env a), GymMake (env a)]"
  using assms
  by (auto simp: reaches_seeding_def startup_def index0_def raise_or_return_def run_simps
        outcome_of_def trace_def split: prod.splits list.splits sum.splits)

lemma reaches_seeding_cases:
  assumes "reaches_seeding X"
  obtains sd sds ad ads h hs m where
    "observation_space_shape X = sd # sds" "action_space_shape X = ad # ads"
    "action_space_high X = h # hs" "py_int h = Inr m"
  using assms
  by (auto simp: reaches_seeding_def neq_Nil_conv split: list.splits sum.splits)

lemma stub_shapes:
  "observation_space_shape stub = [1]" "action_space_shape stub = [1]"
  "action_space_high stub = [Float 1]" "py_int (Float 1) = Inr 1"
  by (simp_all add: stub_def py_int_def)

lemma stub_reaches_seeding: "reaches_seeding stub"
  by (simp add: reaches_seeding_def stub_shapes)

text \<open>
  C6 (amended). The main block seeds numpy and the environment, both with the configured
  seed and in this order, exactly when the seed is greater than zero (and the main block
  reaches the seeding statement); for every seed less than or equal to zero, zero
  included, nothing is seeded.
\<close>

theorem startup_seeds:
  "filter is_seeding (trace (startup X a w)) =
     (if 0 < seed a \<and> reaches_seeding X then [NpRandomSeed (seed a), EnvSeed (seed a)] else [])"
proof (cases "reaches_seeding X")
  case True
  then obtain sd sds ad ads h hs m where
    "observation_space_shape X = sd # sds" "action_space_shape X = ad # ads"
    "action_space_high X = h # hs" "py_int h = Inr m"
    by (rule reaches_seeding_cases)
  from startup_run [OF this, of a w] True show ?thesis by simp
next
  case False
  from startup_stops [OF this, of a w] False show ?thesis by simp
qed

theorem startup_seeds_witness:
  "filter is_seeding (trace (startup stub (stub_args\<lparr>seed := 3\<rparr>) 0)) = [NpRandomSeed 3, EnvSeed 3] \<and>
   filter is_seeding (trace (startup stub (stub_args\<lparr>seed := - 1\<rparr>) 0)) = []"
  using startup_seeds [of stub "stub_args\<lparr>seed := 3\<rparr>" 0]
    startup_seeds [of stub "stub_args\<lparr>seed := - 1\<rparr>" 0]
  by (simp add: stub_reaches_seeding)

text \<open>
  C6, as stated, fails at the seed 0: it is not negative, and the main block, which reaches
  its seeding statement, seeds nothing.
\<close>

theorem seed_zero_counterexample:
  "0 \<le> seed (stub_args\<lparr>seed := 0\<rparr>) \<and> reaches_seeding stub \<and>
   filter is_seeding (trace (startup stub (stub_args\<lparr>seed := 0\<rparr>) 0)) = []"
  using startup_run [OF stub_shapes, of "stub_args\<lparr>seed := 0\<rparr>" 0]
  by (simp add: stub_reaches_seeding)

lemma bindM_cong_returned:
  assumes "\<And>x evs w1. m w = (Returned x, evs, w1) \<Longrightarrow> f x w1 = f' x w1"
  shows "bindM m f w = bindM m f' w"
  using assms by (cases "m w" rule: prod_cases3; case_tac a) (simp_all add: bindM_def)

lemma startup_args:
  assumes "startup X a w = (Returned g, evs, w1)"
  shows "args g = a\<lparr>output_dir := fst (get_output_folder X (output_dir a) (env a) w)\<rparr>"
proof (cases "reaches_seeding X")
  case True
  then obtain sd sds ad ads h hs m where
    "observation_space_shape X = sd # sds" "action_space_shape X = ad # ads"
    "action_space_high X = h # hs" "py_int h = Inr m"
    by (rule reaches_seeding_cases)
  from startup_run [OF this, of a w] assms show ?thesis by (simp add: outcome_of_def)
next
  case False
  from startup_stops [OF this, of a w] assms show ?thesis by (auto simp: outcome_of_def)
qed

lemma bindM_raiseM_outcome:
  "outcome_of (bindM m (\<lambda>x. raiseM (e x)) w) =
     (case outcome_of (m w) of Returned x \<Rightarrow> Raised (e x) | Raised e0 \<Rightarrow> Raised e0
      | OutOfFuel \<Rightarrow> OutOfFuel)"
  by (cases "m w" rule: prod_cases3; case_tac a) (simp_all add: bindM_def raiseM_def outcome_of_def)

lemma bindM_raiseM_trace: "trace (bindM m (\<lambda>x. raiseM (e x)) w) = trace (m w)"
  by (cases "m w" rule: prod_cases3; case_tac a) (simp_all add: bindM_def raiseM_def trace_def)

text \<open>
  C7. For every mode other than \<^verbatim>\<open>train\<close> and \<^verbatim>\<open>test\<close> the main block, once its startup
  sequence has run, raises RuntimeError "undefined mode ..." and calls nothing further
  (if the startup sequence itself raises, that exception ends the process); for
  \<^verbatim>\<open>train\<close> it runs \<^verbatim>\<open>train\<close> and for \<^verbatim>\<open>test\<close> it runs \<^verbatim>\<open>test\<close>, on the parsed arguments and
  the globals of the startup sequence.
\<close>

theorem main_dispatch:
  "(mode a \<noteq> ''train'' \<and> mode a \<noteq> ''test'' \<longrightarrow>
      outcome_of (main fuel X a w) =
        (case outcome_of (startup X a w) of
           Returned g \<Rightarrow> Raised (RuntimeError (''undefined mode '' @ mode a))
         | Raised e \<Rightarrow> Raised e
         | OutOfFuel \<Rightarrow> OutOfFuel) \<and>
      trace (main fuel X a w) = trace (startup X a w)) \<and>
   (mode a = ''train'' \<longrightarrow>
      main fuel X a w =
        bindM (startup X a)
          (\<lambda>g. train fuel X g (n_gen a) (n_episodes a) (omega a) (output_dir (args g))
                 (debug a) (render a)) w) \<and>
   (mode a = ''test'' \<longrightarrow>
      main fuel X a w =
        bindM (startup X a)
          (\<lambda>g. test fuel X g (n_test a) (filename a) (debug a) (render a)) w)"
proof (intro conjI impI)
  assume bad: "mode a \<noteq> ''train'' \<and> mode a \<noteq> ''test''"
  have eq: "main fuel X a w =
      bindM (startup X a) (\<lambda>g. raiseM (RuntimeError (''undefined mode '' @ mode a))) w"
    unfolding main_def
    by (rule bindM_cong_returned) (use bad in \<open>simp add: dispatch_def startup_args\<close>)
  show "outcome_of (main fuel X a w) =
        (case outcome_of (startup X a w) of
           Returned g \<Rightarrow> Raised (RuntimeError (''undefined mode '' @ mode a))
         | Raised e \<Rightarrow> Raised e
         | OutOfFuel \<Rightarrow> OutOfFuel)"
    by (simp only: eq bindM_raiseM_outcome)
  show "trace (main fuel X a w) = trace (startup X a w)"
    by (simp only: eq bindM_raiseM_trace)
next
  assume "mode a = ''train''"
  then show "main fuel X a w =
        bindM (startup X a)
          (\<lambda>g. train fuel X g (n_gen a) (n_episodes a) (omega a) (output_dir (args g))
                 (debug a) (render a)) w"
    unfolding main_def
    by (intro bindM_cong_returned) (simp add: dispatch_def startup_args)
next
  assume "mode a = ''test''"
  then show "main fuel X a w =
        bindM (startup X a)
          (\<lambda>g. test fuel X g (n_test a) (filename a) (debug a) (render a)) w"
    unfolding main_def
    by (intro bindM_cong_returned) (simp add: dispatch_def startup_args)
qed


theorem main_dispatch_witness:
  "outcome_of (main 1 stub (stub_args\<lparr>mode := ''tset''\<rparr>) 0) =
     Raised (RuntimeError ''undefined mode tset'') \<and>
   trace (main 1 stub (stub_args\<lparr>mode := ''tset''\<rparr>) 0) =
     [GetOutputFolder ''results'' ''Stub-v0'', GymMake ''Stub-v0'', MemoryInit 1000000,
      NoiseInit, AgentInit False, EsInit]"
  using main_dispatch [of "stub_args\<lparr>mode := ''tset''\<rparr>" 1 stub 0]
    startup_run [OF stub_shapes, of "stub_args\<lparr>mode := ''tset''\<rparr>" 0]
  by (simp add: stub_args_def)

lemma startup_max_action:
  assumes "outcome_of (startup X a w) = Returned g" "action_space_high X = h # hs"
  shows "py_int h = Inr (max_action g)"
proof (cases "reaches_seeding X")
  case True
  then obtain sd sds ad ads h' hs' m where s:
    "observation_space_shape X = sd # sds" "action_space_shape X = ad # ads"
    "action_space_high X = h' # hs'" "py_int h' = Inr m"
    by (rule reaches_seeding_cases)
  from startup_run [OF s, of a w] assms s show ?thesis by auto
next
  case False
  from startup_stops [OF this, of a w] assms(1) show ?thesis by auto
qed

text \<open>Truncation towards zero, said without floor and ceiling.\<close>

lemma py_int_truncates:
  assumes "py_int h = Inr m"
  shows "\<exists>x. h = Float x \<and> \<bar>real_of_int m\<bar> \<le> \<bar>x\<bar> \<and> \<bar>x\<bar> < \<bar>real_of_int m\<bar> + 1 \<and>
             0 \<le> real_of_int m * x"
proof (cases h)
  case (Float x)
  show ?thesis
  proof (cases "0 \<le> x")
    case True
    with assms Float have m: "m = \<lfloor>x\<rfloor>" by (simp add: py_int_def)
    from True have "0 \<le> real_of_int \<lfloor>x\<rfloor>" by simp
    moreover have "real_of_int \<lfloor>x\<rfloor> \<le> x" "x < real_of_int \<lfloor>x\<rfloor> + 1" by linarith+
    ultimately show ?thesis using True Float m by (auto intro: mult_nonneg_nonneg)
  next
    case False
    with assms Float have m: "m = \<lceil>x\<rceil>" by (simp add: py_int_def)
    from False have "real_of_int \<lceil>x\<rceil> \<le> 0" by (simp add: ceiling_le_iff)
    moreover have "x \<le> real_of_int \<lceil>x\<rceil>" "real_of_int \<lceil>x\<rceil> < x + 1" by linarith+
    ultimately show ?thesis using False Float m by (auto intro: mult_nonpos_nonpos)
  qed
qed (use assms in \<open>simp_all add: py_int_def\<close>)

lemma py_int_fraction: "0 < x \<Longrightarrow> x < 1 \<Longrightarrow> py_int (Float x) = Inr 0"
  by (simp add: py_int_def floor_eq_iff)

lemma clipped_zero: "clipped 0 ev \<Longrightarrow> zero_or_nan ev"
proof (cases ev)
  case (EnvStep a d)
  have "clipped_entry 0 x \<Longrightarrow> x = Float 0 \<or> x = NaN" for x
    by (cases x) (auto simp: clipped_entry_def)
  then show "clipped 0 ev \<Longrightarrow> zero_or_nan ev"
    by (auto simp: EnvStep list_all_iff)
qed simp_all

lemma scale_zero: "scale rnd 0 y = (if is_finite y then Float 0 else NaN)"
  by (cases y) simp_all

lemma stub_half_simps:
  "observation_space_shape stub_half = [1]" "action_space_shape stub_half = [1]"
  "action_space_high stub_half = [Float (1 / 2)]"
  "get_output_folder stub_half = (\<lambda>parent e w. (parent @ ''/'' @ e @ ''-run0'', w))"
  "env_reset stub_half = (\<lambda>w. ([Float 0], 0))"
  "env_step stub_half = (\<lambda>a w. (([Float 0], Float 1, 5 \<le> Suc w), Suc w))"
  "tanh_layers stub_half = (\<lambda>net x. [Float 1])"
  "torch_round stub_half = Float"
  "effect stub_half = (\<lambda>ev w. w)"
  by (simp_all add: stub_half_def stub_def)

lemma stub_half_nan_simps:
  "observation_space_shape stub_half_nan = [1]" "action_space_shape stub_half_nan = [1]"
  "action_space_high stub_half_nan = [Float (1 / 2)]"
  "get_output_folder stub_half_nan = (\<lambda>parent e w. (parent @ ''/'' @ e @ ''-run0'', w))"
  "env_reset stub_half_nan = (\<lambda>w. ([Float 0], 0))"
  "env_step stub_half_nan = (\<lambda>a w. (([Float 0], Float 1, 5 \<le> Suc w), Suc w))"
  "tanh_layers stub_half_nan = (\<lambda>net x. [NaN])"
  "torch_round stub_half_nan = Float"
  "effect stub_half_nan = (\<lambda>ev w. w)"
  by (simp_all add: stub_half_nan_def stub_half_def stub_def)

text \<open>
  C10 (amended). \<^verbatim>\<open>max_action\<close> is \<^verbatim>\<open>int(env.action_space.high[0])\<close>: the bound is finite
  (the conversion raises otherwise) and \<^verbatim>\<open>max_action\<close> is the bound truncated towards zero,
  the integer of the bound's sign with \<open>|max_action| \<le> |bound| < |max_action| + 1\<close>. For
  an action bound strictly between 0 and 1 it is 0. Then an actor built with it returns
  0 in every entry that is finite before the scaling and NaN in the others, and every
  action that \<^verbatim>\<open>evaluate\<close> hands to \<^verbatim>\<open>env.step\<close> on the policy path is 0 or NaN in every
  entry, whatever the actor and the noise.
\<close>

theorem max_action_truncated:
  assumes "outcome_of (startup X a w) = Returned g" and "action_space_high X = h # hs"
  shows "(\<exists>x. h = Float x \<and> \<bar>real_of_int (max_action g)\<bar> \<le> \<bar>x\<bar> \<and>
              \<bar>x\<bar> < \<bar>real_of_int (max_action g)\<bar> + 1 \<and> 0 \<le> real_of_int (max_action g) * x) \<and>
         ((\<exists>x. h = Float x \<and> 0 < x \<and> x < 1) \<longrightarrow>
            max_action g = 0 \<and>
            ActorERL_forward X \<lparr>parameters = net, self_max_action = max_action g\<rparr> st =
              map (\<lambda>y. if is_finite y then Float 0 else NaN) (tanh_layers X net st) \<and>
            list_all zero_or_nan
              (trace (evaluate fuel X g actor n_eps False noise rend am w1)))"
proof (intro conjI impI)
  note p = startup_max_action [OF assms]
  show "\<exists>x. h = Float x \<and> \<bar>real_of_int (max_action g)\<bar> \<le> \<bar>x\<bar> \<and>
              \<bar>x\<bar> < \<bar>real_of_int (max_action g)\<bar> + 1 \<and> 0 \<le> real_of_int (max_action g) * x"
    by (rule py_int_truncates [OF p])
  assume "\<exists>x. h = Float x \<and> 0 < x \<and> x < 1"
  then obtain x where x: "h = Float x" "0 < x" "x < 1" by blast
  from p x py_int_fraction [OF x(2,3)] show z: "max_action g = 0" by simp
  show "ActorERL_forward X \<lparr>parameters = net, self_max_action = max_action g\<rparr> st =
              map (\<lambda>y. if is_finite y then Float 0 else NaN) (tanh_layers X net st)"
    by (simp add: ActorERL_forward_def z scale_zero)
  have "sat (clipped (max_action g)) (\<lambda>_. True)
          (evaluate fuel X g actor n_eps False noise rend am)"
    by (rule sat_evaluate [OF sat_policy_clipped sat_policy_clipped]) simp_all
  then have "list_all (clipped 0) (trace (evaluate fuel X g actor n_eps False noise rend am w1))"
    by (simp add: sat_def z)
  then show "list_all zero_or_nan (trace (evaluate fuel X g actor n_eps False noise rend am w1))"
    by (simp add: list_all_iff clipped_zero)
qed

theorem max_action_truncated_witness:
  "outcome_of (startup stub_half stub_args 0) = Returned stub_half_globals \<and>
   max_action stub_half_globals = 0 \<and>
   trace (evaluate 1 stub_half stub_half_globals stub_actor 1 False PyNone False False 0) =
     [EnvReset, EnvStep [Float 0] False] \<and>
   list_all zero_or_nan
     (trace (evaluate 1 stub_half stub_half_globals stub_actor 1 False PyNone False False 0)) \<and>
   outcome_of (startup (stub_half\<lparr>action_space_high := [Float (5 / 2)]\<rparr>) stub_args 0) =
     Returned (stub_half_globals\<lparr>max_action := 2\<rparr>)"
proof -
  have i: "py_int (Float (1 / 2)) = Inr 0" "py_int (Float (5 / 2)) = Inr 2"
    by (simp_all add: py_int_def floor_eq_iff)
  have s: "outcome_of (startup stub_half stub_args 0) = Returned stub_half_globals"
    using startup_run [OF stub_half_simps(1,2,3) i(1), of stub_args 0]
    by (simp add: stub_half_simps stub_half_globals_def stub_args_def)
  have s2: "outcome_of (startup (stub_half\<lparr>action_space_high := [Float (5 / 2)]\<rparr>) stub_args 0) =
     Returned (stub_half_globals\<lparr>max_action := 2\<rparr>)"
    using startup_run [where X = "stub_half\<lparr>action_space_high := [Float (5 / 2)]\<rparr>"
        and sd = 1 and sds = "[]" and ad = 1 and ads = "[]" and h = "Float (5 / 2)" and hs = "[]"
        and m = 2 and a = stub_args and w = 0] i(2)
    by (simp add: stub_half_simps stub_half_globals_def stub_args_def)
  have t: "trace (evaluate 1 stub_half stub_half_globals stub_actor 1 False PyNone False False 0) =
     [EnvReset, EnvStep [Float 0] False]"
    by (simp add: evaluate_def policy_def ActorERL_forward_def np_clip_def
          np_minimum_def np_maximum_def stub_actor_def
          stub_half_globals_def evaluate_while_Suc stub_half_simps run_simps trace_def
          del: evaluate_while.simps)
  note m = max_action_truncated [OF s stub_half_simps(3), where net = "[]" and st = "[]"
      and fuel = 1 and actor = stub_actor and n_eps = 1
      and noise = PyNone and rend = False and am = False and ?w1.0 = 0]
  have e: "\<exists>x. Float (1 / 2) = Float x \<and> 0 < x \<and> x < 1"
    by (rule exI [of _ "1 / 2"]) simp
  from m e have z: "max_action stub_half_globals = 0"
    and l: "list_all zero_or_nan
     (trace (evaluate 1 stub_half stub_half_globals stub_actor 1 False PyNone False False 0))"
    by blast+
  from s s2 t z l show ?thesis by blast
qed

text \<open>
  C10, as stated, fails: with a bound of one half and an actor whose output is NaN, the
  action handed to \<^verbatim>\<open>env.step\<close> is NaN, not 0.
\<close>

theorem zero_action_counterexample:
  "outcome_of (startup stub_half_nan stub_args 0) = Returned stub_half_globals \<and>
   max_action stub_half_globals = 0 \<and>
   trace (evaluate 1 stub_half_nan stub_half_globals stub_actor 1 False PyNone False False 0) =
     [EnvReset, EnvStep [NaN] False] \<and>
   \<not> list_all zero_action
       (trace (evaluate 1 stub_half_nan stub_half_globals stub_actor 1 False PyNone False False 0))"
proof -
  have i: "py_int (Float (1 / 2)) = Inr 0"
    by (simp add: py_int_def floor_eq_iff)
  have s: "outcome_of (startup stub_half_nan stub_args 0) = Returned stub_half_globals"
    using startup_run [OF stub_half_nan_simps(1,2,3) i, of stub_args 0]
    by (simp add: stub_half_nan_simps stub_half_globals_def stub_args_def)
  have t: "trace (evaluate 1 stub_half_nan stub_half_globals stub_actor 1 False PyNone False False 0) =
     [EnvReset, EnvStep [NaN] False]"
    by (simp add: evaluate_def policy_def ActorERL_forward_def np_clip_def
          np_minimum_def np_maximum_def stub_actor_def
          stub_half_globals_def evaluate_while_Suc stub_half_nan_simps run_simps trace_def
          del: evaluate_while.simps)
  show ?thesis unfolding t using s by (simp add: stub_half_globals_def)
qed

section \<open>train_es\<close>

lemma sat_policy_any:
  "P NoiseSample \<Longrightarrow> P ActionSpaceSample \<Longrightarrow> sat P (\<lambda>_. True) (policy X g actor random noise st)"
  unfolding policy_def Let_def
  by (cases random)
     (auto intro!: sat_bindM [where R = "\<lambda>_. True"] sat_policy_noise sat_returnM sat_call_result)

lemma sat_evaluate_before_lookup:
  "sat before_lookup (\<lambda>_. True) (evaluate fuel X g actor n_eps random noise rend am)"
  by (rule sat_evaluate [OF sat_policy_any sat_policy_any]) simp_all

lemma sat_ActorERL_init: "sat P (\<lambda>_. True) (ActorERL_init X sd ad ma)"
  by (rule satI) (auto simp: ActorERL_init_def split: prod.splits)

lemma sat_actor_set_params: "sat P (\<lambda>_. True) (actor_set_params X v actor)"
  by (auto simp: actor_set_params_def sat_returnM sat_raiseM split: prod.splits option.splits)

lemma sat_train_es_for:
  "sat before_lookup (\<lambda>_. True)
     (train_es_for fuel X g n_eps dbg rend random ps actor batch_steps fitness)"
proof (induction ps arbitrary: actor batch_steps fitness)
  case Nil
  show ?case by (simp add: sat_returnM)
next
  case (Cons p ps)
  show ?case
    apply (simp only: train_es_for.simps)
    apply (rule sat_bindM [OF sat_actor_set_params])
    apply (rule sat_bindM [OF sat_evaluate_before_lookup])
    apply (simp only: split_paired_all prod.case)
    apply (rule sat_bindM [where R = "\<lambda>_. True"])
     apply (rule sat_whenM)
      apply (rule sat_call)
       apply simp
      apply simp
     apply simp
    apply (rule Cons.IH)
    done
qed

lemma no_actor_grad: "ActorERL_getattr ''actor_grad'' = raiseM (AttributeError ''actor_grad'')"
  by (simp add: ActorERL_getattr_def ActorERL_attributes_def RLNN_methods_def)

lemma bindM_raiseM: "bindM (raiseM e) f = raiseM e"
  by (rule ext) (simp add: bindM_def raiseM_def)

lemma sat_train_es:
  "sat before_lookup (\<lambda>_. False) (train_es fuel X g n_eps dbg rend random)"
  unfolding train_es_def no_actor_grad bindM_raiseM
  apply (rule sat_bindM [OF sat_ActorERL_init])
  apply (rule sat_bindM [where R = "\<lambda>_. True"])
   apply (rule sat_call_result)
   apply simp
  apply (rule sat_bindM [OF sat_train_es_for])
  apply (simp only: split_paired_all prod.case)
  apply (rule sat_bindM [where R = "\<lambda>_. True"])
   apply (rule sat_call)
    apply simp
   apply simp
  apply (rule sat_bindM [where R = "\<lambda>_. True"])
   apply (rule satI)
   apply (drule satD [OF sat_actor_set_params])
   apply simp
  apply (rule sat_raiseM)
  done

lemma before_lookup_no_injection: "before_lookup ev \<Longrightarrow> \<not> is_injection ev"
  by (cases ev) simp_all

lemma before_lookup_no_pickle: "before_lookup ev \<Longrightarrow> \<not> is_to_pickle ev"
  by (cases ev) simp_all

lemma sat_never_returns: "sat P (\<lambda>_. False) m \<Longrightarrow> outcome_of (m w) \<noteq> Returned x"
  by (auto simp: sat_def dest!: spec [of _ w] split: outcome.splits)

lemma sat_trace: "sat P Q m \<Longrightarrow> list_all P (trace (m w))"
  by (simp add: sat_def)

lemma stub_es_simps:
  "es_ask stub = (\<lambda>w. ([replicate 17409 (Float 0), replicate 17409 (Float 0),
                            replicate 17409 (Float 0), replicate 17409 (Float 0)], w))"
  "es_mu stub = (\<lambda>w. replicate 17409 (Float 0))"
  "torch_init stub = (\<lambda>s w. (replicate (prod_list s) (Float 0), w))"
  by (simp_all add: stub_def)

lemma train_es_stub:
  "outcome_of (train_es (Suc (Suc (Suc (Suc (Suc 0))))) stub stub_globals 1 False False True 0) =
     Raised (AttributeError ''actor_grad'')"
  by (simp add: train_es_def no_actor_grad ActorERL_init_def ActorERL_shapes_def
        actor_set_params_def set_params_def np_product_def
        evaluate_def policy_def evaluate_while_Suc stub_simps stub_es_simps stub_globals_def
        run_simps outcome_of_def del: evaluate_while.simps)

text \<open>
  C2. The claim does not hold of the code, by a slip: \<^verbatim>\<open>train_es\<close> looks up \<^verbatim>\<open>actor_grad\<close> on
  the actor, a name that ActorERL, RLNN and \<^verbatim>\<open>nn.Module\<close> do not define (the method of
  models.py is \<^verbatim>\<open>train_actor\<close>). The fitnesses are forwarded and the mean is loaded, then the
  lookup raises AttributeError: no run of \<^verbatim>\<open>train_es\<close> returns, and none computes the
  gradient or calls \<^verbatim>\<open>es.add\<close>.
\<close>

theorem train_es_never_injects:
  "(\<forall>n. outcome_of (train_es fuel X g n_eps dbg rend random w) \<noteq> Returned n) \<and>
   list_all (\<lambda>ev. \<not> is_injection ev) (trace (train_es fuel X g n_eps dbg rend random w))"
proof -
  note s = sat_train_es [of fuel X g n_eps dbg rend random]
  have "list_all before_lookup (trace (train_es fuel X g n_eps dbg rend random w))"
    by (rule sat_trace [OF s])
  then have "list_all (\<lambda>ev. \<not> is_injection ev) (trace (train_es fuel X g n_eps dbg rend random w))"
    by (simp add: list_all_iff before_lookup_no_injection)
  with sat_never_returns [OF s] show ?thesis by blast
qed

theorem train_es_never_injects_witness:
  "outcome_of (train_es (Suc (Suc (Suc (Suc (Suc 0))))) stub stub_globals 1 False False True 0) =
     Raised (AttributeError ''actor_grad'') \<and>
   list_all (\<lambda>ev. \<not> is_injection ev)
     (trace (train_es (Suc (Suc (Suc (Suc (Suc 0))))) stub stub_globals 1 False False True 0))"
  using train_es_never_injects
    [of "Suc (Suc (Suc (Suc (Suc 0))))" stub stub_globals 1 False False True 0] train_es_stub
  by blast

section \<open>test\<close>

lemma torch_tensors_shapes: "map tsize (fst (torch_tensors X ss w)) = ss"
proof (induction ss arbitrary: w)
  case Nil
  show ?case by simp
next
  case (Cons s ss)
  obtain d w1 where i: "torch_init X s w = (d, w1)" by (cases "torch_init X s w") auto
  obtain ts w2 where t: "torch_tensors X ss w1 = (ts, w2)" by (cases "torch_tensors X ss w1") auto
  from Cons.IH [of w1] t have "map tsize ts = ss" by simp
  then show ?case by (simp add: i t)
qed

lemma map_tsize_fresh: "map (tsize \<circ> (\<lambda>s. \<lparr>tsize = s, data = f s\<rparr>)) ss = ss"
  by (simp add: comp_def)

lemma stub_load: "torch_load stub = (\<lambda>p w. if p = ''run/actor.pkl''
                     then Some (map (\<lambda>s. \<lparr>tsize = s, data = replicate (prod_list s) (Float 0)\<rparr>)
                                  (ActorERL_shapes 1 1))
                     else None)"
  by (simp add: stub_def)

text \<open>
  C3. The claim does not hold of the code, by a slip: \<^verbatim>\<open>test\<close> passes \<^verbatim>\<open>noise=False\<close> where
  \<^verbatim>\<open>evaluate\<close> tests \<^verbatim>\<open>noise is not None\<close>, so the first call of the policy evaluates
  \<^verbatim>\<open>False.sample()\<close>. For every \<^verbatim>\<open>n_test\<close> of at least 1, \<^verbatim>\<open>test\<close> builds the actor, loads the
  file, resets the environment once and raises AttributeError (or raises while loading):
  no step is taken, no episode is evaluated and no mean is reported.
\<close>

theorem test_raises:
  assumes "0 < n_tst" and "0 < fuel"
  shows "test fuel X g n_tst fname dbg rend w =
     (case torch_tensors X (ActorERL_shapes (state_dim g) (action_dim g)) w of
        (net, w1) \<Rightarrow>
          (case torch_load X (fname @ ''/actor.pkl'') w1 of
             None \<Rightarrow>
               (Raised (FileNotFoundError (fname @ ''/actor.pkl'')),
                [TorchLoad (fname @ ''/actor.pkl'')], w1)
           | Some sd \<Rightarrow>
               if map tsize sd = ActorERL_shapes (state_dim g) (action_dim g)
               then (Raised (AttributeError ''sample''),
                     [TorchLoad (fname @ ''/actor.pkl''), EnvReset], snd (env_reset X w1))
               else (Raised (RuntimeError ''size mismatch''),
                     [TorchLoad (fname @ ''/actor.pkl'')], w1)))"
proof -
  from assms obtain k f where n: "nat n_tst = Suc k" and fu: "fuel = Suc f"
    by (cases "nat n_tst"; cases fuel) auto
  obtain net w1 where tt: "torch_tensors X (ActorERL_shapes (state_dim g) (action_dim g)) w = (net, w1)"
    by (cases "torch_tensors X (ActorERL_shapes (state_dim g) (action_dim g)) w") auto
  from torch_tensors_shapes [of X "ActorERL_shapes (state_dim g) (action_dim g)" w] tt
  have sh: "map tsize net = ActorERL_shapes (state_dim g) (action_dim g)" by simp
  show ?thesis
    by (simp add: test_def ActorERL_init_def load_model_def evaluate_def policy_def n fu tt sh
          evaluate_while_Suc run_simps split: option.splits prod.splits
          del: evaluate_while.simps)
qed

theorem test_raises_witness:
  "0 < (1 :: int) \<and> 0 < (1 :: nat) \<and>
   outcome_of (test 1 stub stub_globals 1 ''run'' True False 0) = Raised (AttributeError ''sample'') \<and>
   trace (test 1 stub stub_globals 1 ''run'' True False 0) = [TorchLoad ''run/actor.pkl'', EnvReset]"
proof -
  have t: "torch_tensors stub (ActorERL_shapes 1 1) 0 =
      (map (\<lambda>s. \<lparr>tsize = s, data = replicate (prod_list s) (Float 0)\<rparr>) (ActorERL_shapes 1 1), 0)"
    by (simp add: ActorERL_shapes_def stub_es_simps)
  have g: "state_dim stub_globals = 1" "action_dim stub_globals = 1"
    by (simp_all add: stub_globals_def)
  from test_raises [of 1 1 stub stub_globals "''run''" True False 0]
  show ?thesis
    by (simp add: g t stub_load map_tsize_fresh outcome_of_def trace_def del: One_nat_def)
qed

section \<open>train\<close>

lemma pickled_none: "list_all (\<lambda>ev. \<not> is_to_pickle ev) evs \<Longrightarrow> pickled path evs = None"
proof (induction evs)
  case Nil
  show ?case by simp
next
  case (Cons ev evs)
  then show ?case by (cases ev) simp_all
qed

lemma pickled_append:
  "pickled path (xs @ ys) =
     (case pickled path ys of Some rows \<Rightarrow> Some rows | None \<Rightarrow> pickled path xs)"
proof (induction xs)
  case Nil
  show ?case by (simp split: option.splits)
next
  case (Cons ev xs)
  then show ?case by (cases ev) (simp_all split: option.splits)
qed

lemma train_for_step:
  "train_for (\<lambda>random. returnM k) (\<lambda>steps_ea random. train_rl X n_eps steps_ea dbg rend random)
     X g out dbg (n # ns) t df w =
   (case train_for (\<lambda>random. returnM k)
           (\<lambda>steps_ea random. train_rl X n_eps steps_ea dbg rend random)
           X g out dbg ns (t + k) (df @ [(t + k, 0)])
           ((if dbg then effect X (PrPurple ''Generation#{}: Total steps:{}'' n (t + k)) else id)
              (effect X (ToPickle (out @ ''/log.pkl'') df)
                (effect X (AgentSave out) (effect X (TrainCritic k) w)))) of
      (r, evs, w1) \<Rightarrow>
        (r, [TrainCritic k, AgentSave out, ToPickle (out @ ''/log.pkl'') df] @
            (if dbg then [PrPurple ''Generation#{}: Total steps:{}'' n (t + k)] else []) @ evs, w1))"
  by (simp add: train_rl_def run_simps split: prod.splits)

lemma train_for_log_lags:
  "ns \<noteq> [] \<Longrightarrow>
   map_option length
     (pickled (out @ ''/log.pkl'')
        (trace (train_for (\<lambda>random. returnM k)
                  (\<lambda>steps_ea random. train_rl X n_eps steps_ea dbg rend random)
                  X g out dbg ns t df w))) =
   Some (length df + (length ns - 1))"
proof (induction ns arbitrary: t df w)
  case Nil
  then show ?case by simp
next
  case (Cons n ns)
  define w0 where "w0 = (if dbg then effect X (PrPurple ''Generation#{}: Total steps:{}'' n (t + k)) else id)
              (effect X (ToPickle (out @ ''/log.pkl'') df)
                (effect X (AgentSave out) (effect X (TrainCritic k) w)))"
  obtain r evs w1 where rec: "train_for (\<lambda>random. returnM k)
           (\<lambda>steps_ea random. train_rl X n_eps steps_ea dbg rend random)
           X g out dbg ns (t + k) (df @ [(t + k, 0)]) w0 = (r, evs, w1)"
    by (cases "train_for (\<lambda>random. returnM k)
           (\<lambda>steps_ea random. train_rl X n_eps steps_ea dbg rend random)
           X g out dbg ns (t + k) (df @ [(t + k, 0)]) w0" rule: prod_cases3) auto
  have tr: "trace (train_for (\<lambda>random. returnM k)
                  (\<lambda>steps_ea random. train_rl X n_eps steps_ea dbg rend random)
                  X g out dbg (n # ns) t df w) =
      ([TrainCritic k, AgentSave out, ToPickle (out @ ''/log.pkl'') df] @
            (if dbg then [PrPurple ''Generation#{}: Total steps:{}'' n (t + k)] else [])) @ evs"
    by (simp only: train_for_step w0_def [symmetric] rec prod.case trace_def fst_conv snd_conv append_assoc)
  show ?case
  proof (cases "ns = []")
    case True
    with rec have "evs = []" by (simp add: returnM_def)
    then show ?thesis unfolding tr by (simp add: True)
  next
    case False
    from Cons.IH [OF False, of "t + k" "df @ [(t + k, 0)]" w0] rec
    have "map_option length (pickled (out @ ''/log.pkl'') evs) = Some (length df + length ns)"
      using False by (simp add: trace_def) (cases ns; simp)
    then show ?thesis
      unfolding tr pickled_append by (auto split: option.splits)
  qed
qed

lemma train_for_two_generations:
  "pickled ''results/log.pkl''
     (trace (train_for (\<lambda>random. returnM 20)
               (\<lambda>steps_ea random. train_rl stub 1 steps_ea False False random)
               stub stub_globals ''results'' False [0, 1] 0 [] 0)) = Some [(20, 0)]"
  by (simp add: train_rl_def run_simps trace_def)

text \<open>
  C1. The claim does not hold of the code. Every generation starts with \<^verbatim>\<open>train_es\<close>, which
  raises (see C2): a run of one generation or more never returns and never writes
  \<^verbatim>\<open>log.pkl\<close>. And the loop itself pickles the log before it appends the generation's row
  (\<open>train_for_log_lags\<close>, \<open>train_for_two_generations\<close>): with phases that do return, the
  persisted log of \<open>n\<close> generations holds \<open>n - 1\<close> rows, one row after two generations.
\<close>

theorem train_persists_nothing:
  assumes "0 < n_gn"
  shows "(\<forall>u. outcome_of (train fuel X g n_gn n_eps omg out dbg rend w) \<noteq> Returned u) \<and>
         list_all (\<lambda>ev. \<not> is_to_pickle ev) (trace (train fuel X g n_gn n_eps omg out dbg rend w)) \<and>
         pickled path (trace (train fuel X g n_gn n_eps omg out dbg rend w)) = None"
proof -
  from assms obtain k where n: "nat n_gn = Suc k" by (cases "nat n_gn") auto
  have gens: "[0 ..< nat n_gn] = 0 # [Suc 0 ..< Suc k]" by (simp add: n upt_conv_Cons)
  have s: "sat before_lookup (\<lambda>_. False) (train fuel X g n_gn n_eps omg out dbg rend)"
    unfolding train_def gens train_for.simps
    by (rule sat_bindM [OF sat_train_es]) simp
  have "list_all before_lookup (trace (train fuel X g n_gn n_eps omg out dbg rend w))"
    by (rule sat_trace [OF s])
  then have np: "list_all (\<lambda>ev. \<not> is_to_pickle ev) (trace (train fuel X g n_gn n_eps omg out dbg rend w))"
    by (simp add: list_all_iff before_lookup_no_pickle)
  from sat_never_returns [OF s] np pickled_none [OF np] show ?thesis by blast
qed

theorem train_persists_nothing_witness:
  "0 < (2 :: int) \<and>
   pickled ''results/log.pkl''
     (trace (train (Suc (Suc (Suc (Suc (Suc 0))))) stub stub_globals 2 1 10 ''results'' False False 0)) = None \<and>
   outcome_of (train (Suc (Suc (Suc (Suc (Suc 0))))) stub stub_globals 2 1 10 ''results'' False False 0) =
     Raised (AttributeError ''actor_grad'')"
proof -
  have gens: "[0 ..< nat 2] = [0, Suc 0]" by (simp add: upt_conv_Cons)
  have r: "start_steps (args stub_globals) = 10000" by (simp add: stub_globals_def stub_args_def)
  have o: "outcome_of (train (Suc (Suc (Suc (Suc (Suc 0))))) stub stub_globals 2 1 10 ''results'' False False 0) =
     Raised (AttributeError ''actor_grad'')"
    using train_es_stub
    unfolding train_def gens train_for.simps r
    by (cases "train_es (Suc (Suc (Suc (Suc (Suc 0))))) stub stub_globals 1 False False True 0" rule: prod_cases3)
       (simp add: bindM_def outcome_of_def)
  from train_persists_nothing [where n_gn = 2 and path = "''results/log.pkl''"
      and fuel = "Suc (Suc (Suc (Suc (Suc 0))))" and X = stub and g = stub_globals and n_eps = 1
      and omg = 10 and out = "''results''" and dbg = False and rend = False and w = 0] o
  show ?thesis by simp
qed

end
